theory Spec2Isabelle
  imports Complex_Main "HOL-Library.AList"
begin

section \<open>Errors, tensor shapes and library layers\<close>

text \<open>
  The repository assembles layers of a tensor library into tabular models. Widths,
  counts and column positions of tensors and layers are sizes and are natural numbers
  here; where the source takes a Python integer that may be negative and a claim is
  about it, the argument is an integer. Dropout probabilities are reals. Every
  exception of the source is a value of \<open>error\<close>, and a function that may raise returns
  \<open>error + 'a\<close>.
\<close>

datatype error =
    ValueError string
  | AssertionError string
  | ZeroDivisionError
  | IndexError
  | KeyError string
  | TypeError
  | UnboundLocalError string
  | AttributeError string
  | RuntimeError

type_synonym shape = "nat list"

text \<open>
  The layers of the tensor library that the source instantiates, as descriptors: the
  layer \<open>nn.Linear(inp, out)\<close> is \<open>Linear inp out True\<close>.
\<close>

datatype layer =
    Linear nat nat bool
  | BatchNorm1d nat
  | LeakyReLU bool
  | Dropout real
  | Activation string
  | Sequential "layer list"

text \<open>
  An embedding layer \<open>nn.Embedding(num, d, padding_idx)\<close> is kept apart from the other
  layers: whether its call succeeds depends on the codes in its input, not on the shape
  of the input alone.
\<close>

datatype embedding = Embedding nat nat "nat option"

definition bindE :: "error + 'a \<Rightarrow> ('a \<Rightarrow> error + 'b) \<Rightarrow> error + 'b" where
  "bindE m f = (case m of Inl e \<Rightarrow> Inl e | Inr v \<Rightarrow> f v)"

text \<open>
  The constructors of the library check their arguments. \<open>nn.Dropout(p)\<close> raises
  \<open>ValueError\<close> unless \<open>0 \<le> p \<le> 1\<close>, and \<open>nn.Linear\<close> cannot allocate a weight with
  a negative size. With natural numbers as sizes \<open>nn.Linear\<close>, \<open>nn.BatchNorm1d\<close> and
  \<open>nn.Embedding(val + 1, dim, padding_idx=0)\<close> are always built, and the source's
  call is written as the descriptor itself.
\<close>

definition nn_Dropout :: "real \<Rightarrow> error + layer" where
  "nn_Dropout p =
     (if p < 0 \<or> 1 < p then Inl (ValueError ''dropout probability has to be between 0 and 1'')
      else Inr (Dropout p))"

definition nn_Linear :: "int \<Rightarrow> int \<Rightarrow> bool \<Rightarrow> error + layer" where
  "nn_Linear i out b =
     (if i < 0 \<or> out < 0 then Inl RuntimeError else Inr (Linear (nat i) (nat out) b))"

text \<open>
  Calling a module. \<open>I\<close> reads a primitive layer as a function on tensors (values of
  any type \<open>'t\<close>); \<open>nn.Sequential\<close> calls its children in order, the empty one returns
  its input.
\<close>

fun apply_layer :: "(layer \<Rightarrow> 't \<Rightarrow> error + 't) \<Rightarrow> layer \<Rightarrow> 't \<Rightarrow> error + 't"
  and apply_layers :: "(layer \<Rightarrow> 't \<Rightarrow> error + 't) \<Rightarrow> layer list \<Rightarrow> 't \<Rightarrow> error + 't" where
  "apply_layer I (Sequential ls) v = apply_layers I ls v"
| "apply_layer I (Linear i out b) v = I (Linear i out b) v"
| "apply_layer I (BatchNorm1d n) v = I (BatchNorm1d n) v"
| "apply_layer I (LeakyReLU ip) v = I (LeakyReLU ip) v"
| "apply_layer I (Dropout p) v = I (Dropout p) v"
| "apply_layer I (Activation a) v = I (Activation a) v"
| "apply_layers I [] v = Inr v"
| "apply_layers I (l # ls) v = bindE (apply_layer I l v) (apply_layers I ls)"

section \<open>Tensor objects\<close>

text \<open>
  The source works in place in some places: \<open>LeakyReLU(inplace=True)\<close> and
  \<open>torch.tanh_\<close> overwrite their argument and \<open>out += identity\<close> overwrites \<open>out\<close>,
  while another name may refer to the same object. Here a tensor object is an address
  into a heap of values; a layer either writes its result to a fresh address or, when
  it is in place, over its argument.
\<close>

type_synonym 't heap = "'t list"

definition fresh :: "'t \<Rightarrow> 't heap \<Rightarrow> error + nat \<times> 't heap" where
  "fresh v h = Inr (length h, h @ [v])"

definition overwrite :: "nat \<Rightarrow> 't \<Rightarrow> 't heap \<Rightarrow> error + nat \<times> 't heap" where
  "overwrite a v h = Inr (a, h[a := v])"

fun call_layer ::
    "(layer \<Rightarrow> 't \<Rightarrow> error + 't) \<Rightarrow> layer \<Rightarrow> nat \<Rightarrow> 't heap \<Rightarrow> error + nat \<times> 't heap"
  and call_layers ::
    "(layer \<Rightarrow> 't \<Rightarrow> error + 't) \<Rightarrow> layer list \<Rightarrow> nat \<Rightarrow> 't heap \<Rightarrow> error + nat \<times> 't heap" where
  "call_layer I (Sequential ls) a h = call_layers I ls a h"
| "call_layer I (LeakyReLU ip) a h =
     bindE (I (LeakyReLU ip) (h ! a)) (\<lambda>v. if ip then overwrite a v h else fresh v h)"
| "call_layer I (Linear i out b) a h = bindE (I (Linear i out b) (h ! a)) (\<lambda>v. fresh v h)"
| "call_layer I (BatchNorm1d n) a h = bindE (I (BatchNorm1d n) (h ! a)) (\<lambda>v. fresh v h)"
| "call_layer I (Dropout p) a h = bindE (I (Dropout p) (h ! a)) (\<lambda>v. fresh v h)"
| "call_layer I (Activation f) a h = bindE (I (Activation f) (h ! a)) (\<lambda>v. fresh v h)"
| "call_layers I [] a h = Inr (a, h)"
| "call_layers I (l # ls) a h =
     bindE (call_layer I l a h) (\<lambda>(a', h'). call_layers I ls a' h')"

text \<open>
  A call on objects agrees with the function on values: it fails as the function
  does, and otherwise the result object holds the function's value; only the argument
  object and fresh objects are written.
\<close>

definition agrees :: "'t heap \<Rightarrow> nat \<Rightarrow> error + 't \<Rightarrow> error + nat \<times> 't heap \<Rightarrow> bool" where
  "agrees h a pure run =
     (case run of
        Inl e \<Rightarrow> pure = Inl e
      | Inr (r, h') \<Rightarrow>
          r < length h' \<and> length h \<le> length h' \<and> pure = Inr (h' ! r)
          \<and> (\<forall>b < length h. b \<noteq> a \<longrightarrow> h' ! b = h ! b)
          \<and> (r = a \<or> length h \<le> r))"

section \<open>Shape rules of the tensor library\<close>

text \<open>
  The forward passes are read on shapes: a tensor is the list of its dimension sizes,
  and each primitive of the library is its shape rule, failing with the library's error
  where the dimensions do not fit. The rules are those of a module in training mode,
  which is the mode of every module after its construction: there batch normalisation
  needs more than one value per channel. On an input without elements batch
  normalisation only scales by the first weight, which does not exist for zero
  channels.
\<close>

definition values_per_channel :: "shape \<Rightarrow> nat" where
  "values_per_channel s = hd s * prod_list (drop 2 s)"

fun prim_shape :: "layer \<Rightarrow> shape \<Rightarrow> error + shape" where
  "prim_shape (Linear i out b) s =
     (if s \<noteq> [] \<and> last s = i then Inr (butlast s @ [out]) else Inl RuntimeError)"
| "prim_shape (BatchNorm1d n) s =
     (if length s \<noteq> 2 \<and> length s \<noteq> 3 then Inl (ValueError ''expected 2D or 3D input'')
      else if values_per_channel s = 1
        then Inl (ValueError ''Expected more than 1 value per channel when training'')
      else if prod_list s = 0 then (if n = 0 then Inl IndexError else Inr s)
      else if s ! 1 \<noteq> n then Inl RuntimeError
      else Inr s)"
| "prim_shape (LeakyReLU ip) s = Inr s"
| "prim_shape (Dropout p) s = Inr s"
| "prim_shape (Activation a) s = Inr s"
| "prim_shape (Sequential ls) s = Inl RuntimeError"

definition layer_shape :: "layer \<Rightarrow> shape \<Rightarrow> error + shape" where
  "layer_shape = apply_layer prim_shape"

text \<open>Broadcasting aligns two shapes at their last dimension; a size 1 stretches.\<close>

fun broadcast_rev :: "shape \<Rightarrow> shape \<Rightarrow> error + shape" where
  "broadcast_rev [] ys = Inr ys"
| "broadcast_rev xs [] = Inr xs"
| "broadcast_rev (x # xs) (y # ys) =
     (if x = y \<or> y = 1 then bindE (broadcast_rev xs ys) (\<lambda>r. Inr (x # r))
      else if x = 1 then bindE (broadcast_rev xs ys) (\<lambda>r. Inr (y # r))
      else Inl RuntimeError)"

definition mul_shape :: "shape \<Rightarrow> shape \<Rightarrow> error + shape" where
  "mul_shape a b = bindE (broadcast_rev (rev a) (rev b)) (\<lambda>r. Inr (rev r))"

text \<open>\<open>a += b\<close> writes into \<open>a\<close>: the broadcast result must have the shape of \<open>a\<close>.\<close>

definition iadd_shape :: "shape \<Rightarrow> shape \<Rightarrow> error + shape" where
  "iadd_shape a b = bindE (mul_shape a b) (\<lambda>r. if r = a then Inr a else Inl RuntimeError)"

definition softmax_shape :: "nat \<Rightarrow> shape \<Rightarrow> error + shape" where
  "softmax_shape d s = (if d < length s then Inr s else Inl IndexError)"

definition squeeze_shape :: "nat \<Rightarrow> shape \<Rightarrow> error + shape" where
  "squeeze_shape d s =
     (if d < length s then Inr (if s ! d = 1 then take d s @ drop (Suc d) s else s)
      else Inl IndexError)"

definition sum_shape :: "nat \<Rightarrow> shape \<Rightarrow> error + shape" where
  "sum_shape d s = (if d < length s then Inr (take d s @ drop (Suc d) s) else Inl IndexError)"






section \<open>Attention layers\<close>

text \<open>
  The tensor operations that \<open>ContextAttention.forward\<close> uses besides its layers,
  read on any type of tensor values.
\<close>

record 't tensor_ops =
  op_tanh :: "'t \<Rightarrow> error + 't"
  op_softmax :: "nat \<Rightarrow> 't \<Rightarrow> error + 't"
  op_squeeze :: "nat \<Rightarrow> 't \<Rightarrow> error + 't"
  op_mul :: "'t \<Rightarrow> 't \<Rightarrow> error + 't"
  op_sum :: "nat \<Rightarrow> 't \<Rightarrow> error + 't"

definition shape_ops :: "shape tensor_ops" where
  "shape_ops =
     \<lparr> op_tanh = Inr,
       op_softmax = softmax_shape,
       op_squeeze = squeeze_shape,
       op_mul = mul_shape,
       op_sum = sum_shape \<rparr>"

record ContextAttention =
  ca_inp_proj :: layer
  ca_context :: layer
  ca_dropout :: layer
  sum_along_seq :: bool
  ca_attn_weights :: "nat option"

definition ContextAttention_init :: "nat \<Rightarrow> real \<Rightarrow> bool \<Rightarrow> error + ContextAttention" where
  "ContextAttention_init input_dim dropout sas =
     bindE (nn_Dropout dropout) (\<lambda>d.
       Inr \<lparr> ca_inp_proj = Linear input_dim input_dim True,
             ca_context = Linear input_dim 1 False,
             ca_dropout = d,
             sum_along_seq = sas,
             ca_attn_weights = None \<rparr>)"

text \<open>
  \<open>ContextAttention.forward\<close> on tensor objects, statement by statement. \<open>tanh_\<close>
  overwrites the projected input; the squeezed weights are kept in the module, so the
  call returns the module too.
\<close>

definition ContextAttention_forward ::
  "(layer \<Rightarrow> 't \<Rightarrow> error + 't) \<Rightarrow> 't tensor_ops \<Rightarrow> ContextAttention \<Rightarrow> nat \<Rightarrow> 't heap
     \<Rightarrow> error + (nat \<times> 't heap) \<times> ContextAttention" where
  "ContextAttention_forward I ops m X h =
     bindE (call_layer I (ca_inp_proj m) X h) (\<lambda>(scores, h).
     bindE (op_tanh ops (h ! scores)) (\<lambda>v.
     bindE (overwrite scores v h) (\<lambda>(scores, h).
     bindE (call_layer I (ca_context m) scores h) (\<lambda>(c, h).
     bindE (op_softmax ops 1 (h ! c)) (\<lambda>v.
     bindE (fresh v h) (\<lambda>(attn_weights, h).
     bindE (op_squeeze ops 2 (h ! attn_weights)) (\<lambda>v.
     bindE (fresh v h) (\<lambda>(squeezed, h).
     let m' = m\<lparr>ca_attn_weights := Some squeezed\<rparr> in
     bindE (call_layer I (ca_dropout m) attn_weights h) (\<lambda>(attn_weights, h).
     bindE (op_mul ops (h ! attn_weights) (h ! X)) (\<lambda>v.
     bindE (fresh v h) (\<lambda>(weighted, h).
     if sum_along_seq m
     then bindE (op_sum ops 1 (h ! weighted)) (\<lambda>v.
          bindE (fresh v h) (\<lambda>(output, h). Inr ((output, h), m')))
     else Inr ((weighted, h), m'))))))))))))"

text \<open>
  The reading of the layer that C8 gives. The attention weights of an input are the
  softmax, along the sequence dimension, of the context projection of the \<open>tanh\<close> of
  the projected input; the output is the input weighted by them (after dropout),
  summed along the sequence dimension or not.
\<close>

definition attention_weights ::
  "(layer \<Rightarrow> 't \<Rightarrow> error + 't) \<Rightarrow> 't tensor_ops \<Rightarrow> nat \<Rightarrow> 't \<Rightarrow> error + 't" where
  "attention_weights I ops input_dim X =
     bindE (I (Linear input_dim input_dim True) X) (\<lambda>scores.
     bindE (op_tanh ops scores) (\<lambda>scores.
     bindE (I (Linear input_dim 1 False) scores) (\<lambda>c.
     op_softmax ops 1 c)))"

definition weighted_input ::
  "(layer \<Rightarrow> 't \<Rightarrow> error + 't) \<Rightarrow> 't tensor_ops \<Rightarrow> nat \<Rightarrow> real \<Rightarrow> bool \<Rightarrow> 't \<Rightarrow> error + 't" where
  "weighted_input I ops input_dim p sas X =
     bindE (attention_weights I ops input_dim X) (\<lambda>w.
     bindE (op_squeeze ops 2 w) (\<lambda>kept.
     bindE (I (Dropout p) w) (\<lambda>w.
     bindE (op_mul ops w X) (\<lambda>weighted.
     if sas then op_sum ops 1 weighted else Inr weighted))))"

record QueryKeySelfAttention =
  head_dim :: int
  n_heads :: int
  qk_proj :: layer
  qk_dropout :: layer
  qk_attn_weights :: "shape option"

text \<open>
  \<open>QueryKeySelfAttention.__init__\<close>, on Python integers. The assertion evaluates
  \<open>input_dim % n_heads\<close> first, which raises \<open>ZeroDivisionError\<close> for a zero divisor;
  Python's \<open>%\<close> and \<open>//\<close> round to minus infinity, as \<open>mod\<close> and \<open>div\<close> do here. Then
  the two layers are built.
\<close>

definition QueryKeySelfAttention_init ::
  "int \<Rightarrow> bool \<Rightarrow> real \<Rightarrow> int \<Rightarrow> error + QueryKeySelfAttention" where
  "QueryKeySelfAttention_init input_dim use_bias dropout nh =
     (if nh = 0 then Inl ZeroDivisionError
      else if input_dim mod nh \<noteq> 0
        then Inl (AssertionError ''input_dim must be divisible by n_heads'')
      else
        bindE (nn_Linear input_dim (input_dim * 2) use_bias) (\<lambda>proj.
        bindE (nn_Dropout dropout) (\<lambda>d.
        Inr \<lparr> head_dim = input_dim div nh,
              n_heads = nh,
              qk_proj = proj,
              qk_dropout = d,
              qk_attn_weights = None \<rparr>)))"


section \<open>Named children of a container module\<close>

text \<open>
  \<open>nn.Sequential\<close> and \<open>nn.ModuleDict\<close> keep their children in an ordered dictionary:
  a new name is appended, an existing name keeps its place and gets the new module.
  Names are built with Python's decimal \<open>str\<close> of a number.
\<close>

definition add_module :: "string \<Rightarrow> 'm \<Rightarrow> (string \<times> 'm) list \<Rightarrow> (string \<times> 'm) list" where
  "add_module name m children = AList.update name m children"

definition digit_char :: "nat \<Rightarrow> char" where
  "digit_char d = char_of (48 + d)"

fun string_of_nat :: "nat \<Rightarrow> string" where
  "string_of_nat n =
     (if n < 10 then [digit_char n] else string_of_nat (n div 10) @ [digit_char (n mod 10)])"

declare string_of_nat.simps [simp del]

text \<open>The number that a string of decimal digits denotes.\<close>

definition digits_value :: "string \<Rightarrow> nat" where
  "digits_value ds = foldl (\<lambda>a c. 10 * a + (of_char c - 48)) 0 ds"

definition lookup_module :: "(string \<times> 'm) list \<Rightarrow> string \<Rightarrow> error + 'm" where
  "lookup_module children name =
     (case map_of children name of None \<Rightarrow> Inl (KeyError name) | Some m \<Rightarrow> Inr m)"

text \<open>A loop whose body may raise stops at the first error.\<close>

fun foldE :: "('a \<Rightarrow> 's \<Rightarrow> error + 's) \<Rightarrow> 'a list \<Rightarrow> 's \<Rightarrow> error + 's" where
  "foldE f [] s = Inr s"
| "foldE f (x # xs) s = bindE (f x s) (foldE f xs)"

fun mapE :: "('a \<Rightarrow> error + 'b) \<Rightarrow> 'a list \<Rightarrow> error + 'b list" where
  "mapE f [] = Inr []"
| "mapE f (x # xs) = bindE (f x) (\<lambda>y. bindE (mapE f xs) (\<lambda>ys. Inr (y # ys)))"

section \<open>Residual blocks\<close>

record BasicBlock =
  lin1 :: layer
  bn1 :: layer
  leaky_relu :: layer
  bb_dropout :: bool
  dp :: "layer option"
  lin2 :: layer
  bn2 :: layer
  resize :: "layer option"

text \<open>The attributes that \<open>BasicBlock.__init__\<close> assigns.\<close>

definition BasicBlock_init :: "nat \<Rightarrow> nat \<Rightarrow> real \<Rightarrow> layer option \<Rightarrow> BasicBlock" where
  "BasicBlock_init inp out p rs =
     \<lparr> lin1 = Linear inp out True,
       bn1 = BatchNorm1d out,
       leaky_relu = LeakyReLU True,
       bb_dropout = (p > 0),
       dp = (if p > 0 then Some (Dropout p) else None),
       lin2 = Linear out out True,
       bn2 = BatchNorm1d out,
       resize = rs \<rparr>"

text \<open>
  The call \<open>BasicBlock(inp, out, dropout, resize)\<close>. The layers are built as the
  attributes are assigned; with natural widths only \<open>nn.Dropout\<close>, which is built
  for a positive \<open>dropout\<close>, can refuse its argument.
\<close>

definition BasicBlock_new :: "nat \<Rightarrow> nat \<Rightarrow> real \<Rightarrow> layer option \<Rightarrow> error + BasicBlock" where
  "BasicBlock_new inp out p rs =
     (if p > 0 then bindE (nn_Dropout p) (\<lambda>d. Inr (BasicBlock_init inp out p rs))
      else Inr (BasicBlock_init inp out p rs))"

text \<open>
  \<open>BasicBlock.forward\<close> on tensor values: \<open>I\<close> reads the primitive layers, \<open>add\<close> is the
  sum of two tensors. The statements are those of the source, in its order.
\<close>

definition BasicBlock_forward ::
  "(layer \<Rightarrow> 't \<Rightarrow> error + 't) \<Rightarrow> ('t \<Rightarrow> 't \<Rightarrow> error + 't) \<Rightarrow> BasicBlock \<Rightarrow> 't \<Rightarrow> error + 't" where
  "BasicBlock_forward I add blk x =
     (let identity = x in
      bindE (apply_layer I (lin1 blk) x) (\<lambda>out.
      bindE (apply_layer I (bn1 blk) out) (\<lambda>out.
      bindE (apply_layer I (leaky_relu blk) out) (\<lambda>out.
      bindE (if bb_dropout blk
             then (case dp blk of Some d \<Rightarrow> apply_layer I d out
                   | None \<Rightarrow> Inl (AttributeError ''dp''))
             else Inr out) (\<lambda>out.
      bindE (apply_layer I (lin2 blk) out) (\<lambda>out.
      bindE (apply_layer I (bn2 blk) out) (\<lambda>out.
      bindE (case resize blk of None \<Rightarrow> Inr identity
             | Some r \<Rightarrow> apply_layer I r x) (\<lambda>identity.
      bindE (add out identity) (\<lambda>out.
      apply_layer I (leaky_relu blk) out)))))))))"

subsection \<open>The block on tensor objects\<close>

text \<open>
  \<open>BasicBlock.forward\<close> on tensor objects: the activation is in place and
  \<open>out += identity\<close> overwrites \<open>out\<close>, while \<open>identity\<close> is another name of the input
  object.
\<close>

definition BasicBlock_call ::
  "(layer \<Rightarrow> 't \<Rightarrow> error + 't) \<Rightarrow> ('t \<Rightarrow> 't \<Rightarrow> error + 't) \<Rightarrow> BasicBlock \<Rightarrow> nat \<Rightarrow> 't heap
     \<Rightarrow> error + nat \<times> 't heap" where
  "BasicBlock_call I add blk x h =
     (let identity = x in
      bindE (call_layer I (lin1 blk) x h) (\<lambda>(out, h).
      bindE (call_layer I (bn1 blk) out h) (\<lambda>(out, h).
      bindE (call_layer I (leaky_relu blk) out h) (\<lambda>(out, h).
      bindE (if bb_dropout blk
             then (case dp blk of Some d \<Rightarrow> call_layer I d out h
                   | None \<Rightarrow> Inl (AttributeError ''dp''))
             else Inr (out, h)) (\<lambda>(out, h).
      bindE (call_layer I (lin2 blk) out h) (\<lambda>(out, h).
      bindE (call_layer I (bn2 blk) out h) (\<lambda>(out, h).
      bindE (case resize blk of None \<Rightarrow> Inr (identity, h)
             | Some r \<Rightarrow> call_layer I r x h) (\<lambda>(identity, h).
      bindE (add (h ! out) (h ! identity)) (\<lambda>v.
      bindE (overwrite out v h) (\<lambda>(out, h).
      call_layer I (leaky_relu blk) out h))))))))))"

text \<open>
  The reading of the block that C6 gives: \<open>T\<close> is the two linear/batch-norm stages,
  with the activation and the optional dropout after the first, and the block returns
  \<open>leaky_relu (T x + identity)\<close>.
\<close>

definition block_T :: "(layer \<Rightarrow> 't \<Rightarrow> error + 't) \<Rightarrow> real \<Rightarrow> nat \<Rightarrow> nat \<Rightarrow> 't \<Rightarrow> error + 't" where
  "block_T I p inp out x =
     bindE (I (Linear inp out True) x) (\<lambda>a.
     bindE (I (BatchNorm1d out) a) (\<lambda>a.
     bindE (I (LeakyReLU True) a) (\<lambda>a.
     bindE (if p > 0 then I (Dropout p) a else Inr a) (\<lambda>a.
     bindE (I (Linear out out True) a) (\<lambda>a.
     I (BatchNorm1d out) a)))))"

definition residual_sum ::
  "(layer \<Rightarrow> 't \<Rightarrow> error + 't) \<Rightarrow> ('t \<Rightarrow> 't \<Rightarrow> error + 't) \<Rightarrow> real \<Rightarrow> nat \<Rightarrow> nat \<Rightarrow> layer option
     \<Rightarrow> 't \<Rightarrow> error + 't" where
  "residual_sum I add p inp out rs x =
     bindE (block_T I p inp out x) (\<lambda>t.
     bindE (case rs of None \<Rightarrow> Inr x | Some r \<Rightarrow> apply_layer I r x) (\<lambda>identity.
     bindE (add t identity) (\<lambda>y.
     I (LeakyReLU True) y)))"

section \<open>DenseResnet\<close>

datatype resnet_child = Plain layer | Block BasicBlock

record DenseResnet =
  dr_input_dim :: nat
  dr_blocks_dims :: "nat list"
  dr_dropout :: real
  dense_resnet :: "(string \<times> resnet_child) list"

text \<open>The body of the loop \<open>for i in range(1, len(blocks_dims))\<close>.\<close>

definition add_block ::
  "nat list \<Rightarrow> real \<Rightarrow> nat \<Rightarrow> (string \<times> resnet_child) list
     \<Rightarrow> error + (string \<times> resnet_child) list" where
  "add_block bd p i children =
     (let rs = (if bd ! (i - 1) \<noteq> bd ! i
                then Some (Sequential [Linear (bd ! (i - 1)) (bd ! i) True, BatchNorm1d (bd ! i)])
                else None)
      in bindE (BasicBlock_new (bd ! (i - 1)) (bd ! i) p rs) (\<lambda>blk.
           Inr (add_module (''block_'' @ string_of_nat (i - 1)) (Block blk) children)))"

text \<open>\<open>DenseResnet.__init__\<close>; \<open>blocks_dims[0]\<close> of an empty list raises \<open>IndexError\<close>.\<close>

definition DenseResnet_init :: "nat \<Rightarrow> nat list \<Rightarrow> real \<Rightarrow> error + DenseResnet" where
  "DenseResnet_init input_dim bd p =
     (case bd of
        [] \<Rightarrow> Inl IndexError
      | b0 # _ \<Rightarrow>
          let start = (if input_dim \<noteq> b0
                       then [(''lin1'', Plain (Linear input_dim b0 True)),
                             (''bn1'', Plain (BatchNorm1d b0))]
                       else [])
          in bindE (foldE (add_block bd p) [1..<length bd] start) (\<lambda>children.
               Inr \<lparr> dr_input_dim = input_dim,
                     dr_blocks_dims = bd,
                     dr_dropout = p,
                     dense_resnet = children \<rparr>))"

fun child_forward ::
  "(layer \<Rightarrow> 't \<Rightarrow> error + 't) \<Rightarrow> ('t \<Rightarrow> 't \<Rightarrow> error + 't) \<Rightarrow> resnet_child \<Rightarrow> 't \<Rightarrow> error + 't" where
  "child_forward I add (Plain l) x = apply_layer I l x"
| "child_forward I add (Block b) x = BasicBlock_forward I add b x"

fun children_forward ::
  "(layer \<Rightarrow> 't \<Rightarrow> error + 't) \<Rightarrow> ('t \<Rightarrow> 't \<Rightarrow> error + 't) \<Rightarrow> (string \<times> resnet_child) list
     \<Rightarrow> 't \<Rightarrow> error + 't" where
  "children_forward I add [] x = Inr x"
| "children_forward I add (c # cs) x =
     bindE (child_forward I add (snd c) x) (children_forward I add cs)"

definition DenseResnet_forward ::
  "(layer \<Rightarrow> 't \<Rightarrow> error + 't) \<Rightarrow> ('t \<Rightarrow> 't \<Rightarrow> error + 't) \<Rightarrow> DenseResnet \<Rightarrow> 't \<Rightarrow> error + 't" where
  "DenseResnet_forward I add m X = children_forward I add (dense_resnet m) X"


text \<open>
  The child that C9 expects at position \<open>i\<close> among the blocks: a block from width
  \<open>blocks_dims[i]\<close> to width \<open>blocks_dims[i+1]\<close>, with a resize module of a linear
  layer and a batch normalisation exactly when the two widths differ.
\<close>

definition expected_resize :: "nat \<Rightarrow> nat \<Rightarrow> layer option" where
  "expected_resize inp out =
     (if inp \<noteq> out then Some (Sequential [Linear inp out True, BatchNorm1d out]) else None)"

definition block_child :: "nat list \<Rightarrow> real \<Rightarrow> nat \<Rightarrow> string \<times> resnet_child" where
  "block_child bd p i =
     (''block_'' @ string_of_nat i,
      Block (BasicBlock_init (bd ! i) (bd ! Suc i) p (expected_resize (bd ! i) (bd ! Suc i))))"

section \<open>Input tensors, indexing and concatenation\<close>

text \<open>
  The input of a tabular model is a two-dimensional tensor: rows of numbers, each as
  long as the tensor is wide. Its categorical columns hold category codes.
\<close>

record tensor2 =
  width :: nat
  rows :: "real list list"

definition is_tensor2 :: "tensor2 \<Rightarrow> bool" where
  "is_tensor2 X \<longleftrightarrow> list_all (\<lambda>r. length r = width X) (rows X)"

text \<open>\<open>X[:, j]\<close>\<close>

definition select_column :: "nat \<Rightarrow> tensor2 \<Rightarrow> error + real list" where
  "select_column j X =
     (if j < width X then Inr (map (\<lambda>r. r ! j) (rows X)) else Inl IndexError)"

text \<open>\<open>.long()\<close> drops the fractional part of a number.\<close>

definition long :: "real \<Rightarrow> int" where
  "long v = (if 0 \<le> v then \<lfloor>v\<rfloor> else \<lceil>v\<rceil>)"

text \<open>
  Calling an embedding layer on a column of codes: every code must be a row of the
  table, and each code becomes a vector of the embedding width.
\<close>

fun Embedding_forward :: "embedding \<Rightarrow> int list \<Rightarrow> error + shape" where
  "Embedding_forward (Embedding num d pad) codes =
     (if list_all (\<lambda>c. 0 \<le> c \<and> c < int num) codes then Inr [length codes, d]
      else Inl IndexError)"

text \<open>\<open>X[:, js].float()\<close> for a list of positions, read on shapes\<close>

definition select_columns :: "nat list \<Rightarrow> tensor2 \<Rightarrow> error + shape" where
  "select_columns js X =
     (if list_all (\<lambda>j. j < width X) js then Inr [length (rows X), length js]
      else Inl IndexError)"

text \<open>
  \<open>torch.cat(ts, 1)\<close>: the list is not empty, every tensor has a dimension 1 and all
  agree outside it.
\<close>

definition cat1 :: "shape list \<Rightarrow> error + shape" where
  "cat1 ts =
     (case ts of
        [] \<Rightarrow> Inl RuntimeError
      | t # _ \<Rightarrow>
          if length t < 2 then Inl IndexError
          else if list_all (\<lambda>u. length u = length t \<and> u[1 := 0] = t[1 := 0]) ts
          then Inr (t[1 := sum_list (map (\<lambda>u. u ! 1) ts)])
          else Inl RuntimeError)"

definition lookup_key :: "(string \<rightharpoonup> 'v) \<Rightarrow> string \<Rightarrow> error + 'v" where
  "lookup_key d k = (case d k of None \<Rightarrow> Inl (KeyError k) | Some v \<Rightarrow> Inr v)"

section \<open>MLP\<close>

text \<open>
  Modelled from the spec: the function that builds one dense layer of the \<open>MLP\<close> is not
  among the sources. The parameter documentation of \<open>TabResnet\<close> gives the order of its
  operations: \<open>[LIN -> ACT -> BN -> DP]\<close> when \<open>linear_first\<close> is set and
  \<open>[BN -> DP -> LIN -> ACT]\<close> otherwise, with the batch normalisation present only
  when asked for. The dropout layer is the library's, which refuses a probability
  outside \<open>[0, 1]\<close>.
\<close>

definition dense_layer :: "nat \<Rightarrow> nat \<Rightarrow> string \<Rightarrow> real \<Rightarrow> bool \<Rightarrow> bool \<Rightarrow> error + layer" where
  "dense_layer inp out activation p bn linear_first =
     bindE (nn_Dropout p) (\<lambda>d.
       let lin = [Linear inp out True, Activation activation];
           bn_dp = (if bn then [BatchNorm1d (if linear_first then out else inp)] else [])
                    @ [d]
       in Inr (Sequential (if linear_first then lin @ bn_dp else bn_dp @ lin)))"

record MLP =
  mlp :: "layer list"

text \<open>
  Modelled from the spec: the class \<open>MLP\<close> is not among the sources. By the parameter
  documentation its argument lists the number of neurons per dense layer, so there is
  one dense layer for each pair of neighbouring entries; batch normalisation is applied
  to the dense layers when \<open>batchnorm\<close> is set, to the last of them only when
  \<open>batchnorm_last\<close> is set as well.
\<close>

definition MLP_init ::
  "nat list \<Rightarrow> string \<Rightarrow> real \<Rightarrow> bool \<Rightarrow> bool \<Rightarrow> bool \<Rightarrow> error + MLP" where
  "MLP_init d_hidden activation p batchnorm batchnorm_last linear_first =
     bindE (mapE (\<lambda>i. dense_layer (d_hidden ! (i - 1)) (d_hidden ! i) activation p
                        (batchnorm \<and> (i \<noteq> length d_hidden - 1 \<or> batchnorm_last)) linear_first)
              [1..<length d_hidden])
       (\<lambda>layers. Inr \<lparr> mlp = layers \<rparr>)"

text \<open>Modelled from the spec: the forward pass of the \<open>MLP\<close> calls its dense layers in order.\<close>

definition MLP_forward :: "(layer \<Rightarrow> 't \<Rightarrow> error + 't) \<Rightarrow> MLP \<Rightarrow> 't \<Rightarrow> error + 't" where
  "MLP_forward I m X = apply_layers I (mlp m) X"

section \<open>TabResnet\<close>

text \<open>
  The arguments of the constructor. \<open>embed_dropout\<close> is optional in the source and
  \<open>None\<close> is a possible value.
\<close>

record TabResnet_args =
  embed_input :: "(string \<times> nat \<times> nat) list"
  column_idx :: "string \<rightharpoonup> nat"
  blocks_dims :: "nat list"
  blocks_dropout :: real
  mlp_hidden_dims :: "nat list option"
  mlp_activation :: string
  mlp_dropout :: real
  mlp_batchnorm :: bool
  mlp_batchnorm_last :: bool
  mlp_linear_first :: bool
  embed_dropout :: "real option"
  continuous_cols :: "string list option"
  batchnorm_cont :: bool
  concat_cont_first :: bool

record TabResnet = TabResnet_args +
  embed_layers :: "(string \<times> embedding) list"
  embedding_dropout :: layer
  cont_norm :: "layer option"
  tab_resnet :: DenseResnet
  tab_resnet_mlp :: "MLP option"
  output_dim :: nat

text \<open>
  The dictionary comprehension that builds the embedding layers: one entry per
  declared column, a repeated column name keeping its place and taking the later layer.
\<close>

definition build_embed_layers :: "(string \<times> nat \<times> nat) list \<Rightarrow> (string \<times> embedding) list" where
  "build_embed_layers ei =
     fold (\<lambda>(col, val, wd). add_module (''emb_layer_'' @ col) (Embedding (val + 1) wd (Some 0)))
       ei []"

text \<open>
  The constructor, in the order of the source. After the check of \<open>blocks_dims\<close> the
  library can refuse what it is given: \<open>nn.ModuleDict\<close> raises \<open>KeyError\<close> for a name
  that contains a dot, \<open>nn.Dropout\<close> raises \<open>TypeError\<close> for \<open>None\<close> and \<open>ValueError\<close>
  for a number outside \<open>[0, 1]\<close>. \<open>np.sum\<close> of an empty list is the float \<open>0.0\<close>, so
  without categorical columns the input width of \<open>DenseResnet\<close> is a float, equal to
  the integer of the same value, and \<open>nn.Linear\<close> raises \<open>TypeError\<close> when
  \<open>DenseResnet\<close> builds its first layer from it.
\<close>

definition TabResnet_init :: "TabResnet_args \<Rightarrow> error + TabResnet" where
  "TabResnet_init a =
     (if length (blocks_dims a) < 2
      then Inl (ValueError ''blocks must contain at least two elements, e.g. [256, 128]'')
      else
        case find (\<lambda>(col, val, wd). CHR ''.'' \<in> set col) (embed_input a) of
          Some (col, val, wd) \<Rightarrow> Inl (KeyError (''emb_layer_'' @ col))
        | None \<Rightarrow>
        bindE (case embed_dropout a of None \<Rightarrow> Inl TypeError | Some p \<Rightarrow> nn_Dropout p)
          (\<lambda>emb_dropout.
        let emb_inp_dim = sum_list (map (\<lambda>embed. snd (snd embed)) (embed_input a));
            cont_inp_dim = (case continuous_cols a of Some cs \<Rightarrow> length cs | None \<Rightarrow> 0);
            nrm = (case continuous_cols a of
                     Some cs \<Rightarrow> if batchnorm_cont a then Some (BatchNorm1d cont_inp_dim) else None
                   | None \<Rightarrow> None);
            dense_resnet_input_dim =
              (if concat_cont_first a then emb_inp_dim + cont_inp_dim else emb_inp_dim);
            out_dim =
              (if concat_cont_first a then last (blocks_dims a)
               else cont_inp_dim + last (blocks_dims a))
        in bindE (if embed_input a = [] \<and> dense_resnet_input_dim \<noteq> hd (blocks_dims a)
                  then Inl TypeError
                  else DenseResnet_init dense_resnet_input_dim (blocks_dims a) (blocks_dropout a))
             (\<lambda>resnet.
                bindE
                  (case mlp_hidden_dims a of
                     Some hidden \<Rightarrow>
                       let mlp_input_dim =
                             (if concat_cont_first a then last (blocks_dims a)
                              else cont_inp_dim + last (blocks_dims a));
                           hidden' = [mlp_input_dim] @ hidden
                       in bindE (MLP_init hidden' (mlp_activation a) (mlp_dropout a)
                                   (mlp_batchnorm a) (mlp_batchnorm_last a) (mlp_linear_first a))
                            (\<lambda>f. Inr (Some f, last hidden'))
                   | None \<Rightarrow> Inr (None, out_dim))
                  (\<lambda>(the_mlp, out_dim).
                     Inr (TabResnet_args.extend a
                       \<lparr> embed_layers = build_embed_layers (embed_input a),
                         embedding_dropout = emb_dropout,
                         cont_norm = nrm,
                         tab_resnet = resnet,
                         tab_resnet_mlp = the_mlp,
                         output_dim = out_dim \<rparr>)))))"

text \<open>
  The forward pass. The embeddings are looked up on the codes of the input; from there
  on the pass is read on shapes.
\<close>

definition TabResnet_forward :: "TabResnet \<Rightarrow> tensor2 \<Rightarrow> error + shape" where
  "TabResnet_forward m X =
     bindE (mapE (\<lambda>(col, _, _).
              bindE (lookup_module (embed_layers m) (''emb_layer_'' @ col)) (\<lambda>emb.
              bindE (lookup_key (column_idx m) col) (\<lambda>j.
              bindE (select_column j X) (\<lambda>column.
              Embedding_forward emb (map long column)))))
            (embed_input m)) (\<lambda>embed.
     bindE (cat1 embed) (\<lambda>x.
     bindE (layer_shape (embedding_dropout m) x) (\<lambda>x.
     bindE (case continuous_cols m of
              Some cs \<Rightarrow>
                bindE (mapE (lookup_key (column_idx m)) cs) (\<lambda>cont_idx.
                bindE (select_columns cont_idx X) (\<lambda>x_cont.
                bindE (if batchnorm_cont m
                       then (case cont_norm m of Some n \<Rightarrow> layer_shape n x_cont
                             | None \<Rightarrow> Inl (AttributeError ''norm''))
                       else Inr x_cont) (\<lambda>x_cont.
                if concat_cont_first m
                then bindE (cat1 [x, x_cont])
                       (DenseResnet_forward prim_shape iadd_shape (tab_resnet m))
                else bindE (DenseResnet_forward prim_shape iadd_shape (tab_resnet m) x)
                       (\<lambda>r. cat1 [r, x_cont]))))
            | None \<Rightarrow> DenseResnet_forward prim_shape iadd_shape (tab_resnet m) x) (\<lambda>out.
     case mlp_hidden_dims m of
       Some _ \<Rightarrow> (case tab_resnet_mlp m of Some f \<Rightarrow> MLP_forward prim_shape f out
                  | None \<Rightarrow> Inl (AttributeError ''tab_resnet_mlp''))
     | None \<Rightarrow> Inr out))))"

text \<open>Constructing a model and calling it once, as the docstring's example does.\<close>

definition TabResnet_run :: "TabResnet_args \<Rightarrow> tensor2 \<Rightarrow> error + shape" where
  "TabResnet_run a X = bindE (TabResnet_init a) (\<lambda>model. TabResnet_forward model X)"

text \<open>
  The example of the docstring of \<open>TabResnet\<close>: four categorical columns with four
  values and eight embedding dimensions each, one continuous column, two block widths,
  every other argument at its default.
\<close>

definition doc_example :: TabResnet_args where
  "doc_example =
     \<lparr> embed_input = [(''a'', 4, 8), (''b'', 4, 8), (''c'', 4, 8), (''d'', 4, 8)],
       column_idx = [''a'' \<mapsto> 0, ''b'' \<mapsto> 1, ''c'' \<mapsto> 2, ''d'' \<mapsto> 3, ''e'' \<mapsto> 4],
       blocks_dims = [16, 4],
       blocks_dropout = 0,
       mlp_hidden_dims = None,
       mlp_activation = ''relu'',
       mlp_dropout = 0,
       mlp_batchnorm = False,
       mlp_batchnorm_last = False,
       mlp_linear_first = False,
       embed_dropout = Some 0,
       continuous_cols = Some [''e''],
       batchnorm_cont = False,
       concat_cont_first = True \<rparr>"

text \<open>
  The same example with the continuous column normalised and concatenated after the
  blocks, followed by an MLP with two hidden widths.
\<close>

definition doc_example_mlp :: TabResnet_args where
  "doc_example_mlp = doc_example\<lparr> concat_cont_first := False, batchnorm_cont := True,
      mlp_hidden_dims := Some [7, 3], mlp_batchnorm := True \<rparr>"

text \<open>
  Inputs for the example: a batch of two rows and a batch of a single row, with codes
  for the four categorical columns and a number for the continuous one.
\<close>

definition doc_input :: tensor2 where
  "doc_input = \<lparr> width = 5, rows = [[1, 2, 3, 0, 1/2], [3, 0, 1, 2, 1/4]] \<rparr>"

definition single_row_input :: tensor2 where
  "single_row_input = \<lparr> width = 5, rows = [[1, 2, 3, 0, 1/2]] \<rparr>"

subsection \<open>The table of an embedding layer\<close>

text \<open>
  \<open>nn.Embedding(num, d, padding_idx)\<close> holds a table of \<open>num\<close> rows of width \<open>d\<close>. The
  rows start from the library's initial values, here any \<open>init\<close>, except the row at the
  padding index, which is zero. Looking up a code outside the table raises
  \<open>IndexError\<close>.
\<close>

definition Embedding_weight :: "(nat \<Rightarrow> nat \<Rightarrow> real) \<Rightarrow> embedding \<Rightarrow> real list list" where
  "Embedding_weight init l =
     (case l of
        Embedding num d pad \<Rightarrow>
          map (\<lambda>i. if pad = Some i then replicate d 0 else map (init i) [0..<d]) [0..<num])"

definition Embedding_lookup :: "real list list \<Rightarrow> nat \<Rightarrow> error + real list" where
  "Embedding_lookup weight code =
     (if code < length weight then Inr (weight ! code) else Inl IndexError)"

text \<open>
  The width that leaves the blocks, with the continuous columns when they are
  concatenated after the blocks: the input width of the MLP, if there is one.
\<close>

definition base_dim :: "TabResnet_args \<Rightarrow> nat" where
  "base_dim a = (if concat_cont_first a then last (blocks_dims a)
                 else (case continuous_cols a of Some cs \<Rightarrow> length cs | None \<Rightarrow> 0)
                      + last (blocks_dims a))"

section \<open>TabTransformer\<close>



record TabTransformer_args =
  tt_column_idx :: "string \<rightharpoonup> nat"
  tt_cat_embed_input :: "(string \<times> nat) list option"
  tt_cat_embed_dropout :: real
  tt_use_cat_bias :: bool
  tt_cat_embed_activation :: "string option"
  tt_full_embed_dropout :: bool
  tt_shared_embed :: bool
  tt_add_shared_embed :: bool
  tt_frac_shared_embed :: real
  tt_continuous_cols :: "string list option"
  tt_cont_norm_layer :: "string option"
  tt_embed_continuous :: bool
  tt_cont_embed_dropout :: real
  tt_use_cont_bias :: bool
  tt_cont_embed_activation :: "string option"
  tt_input_dim :: nat
  tt_n_heads :: nat
  tt_use_qkv_bias :: bool
  tt_n_blocks :: nat
  tt_attn_dropout :: real
  tt_ff_dropout :: real
  tt_transformer_activation :: string
  tt_mlp_hidden_dims :: "nat list option"
  tt_mlp_activation :: string
  tt_mlp_dropout :: real
  tt_mlp_batchnorm :: bool
  tt_mlp_batchnorm_last :: bool
  tt_mlp_linear_first :: bool

text \<open>
  Modelled from the spec: the base class \<open>BaseTabularModelWithAttention\<close> is not
  among the sources. Of its instance \<open>TabTransformer\<close> reads the attributes
  \<open>embed_continuous\<close>, \<open>input_dim\<close> and \<open>cat_embed_act_fn\<close> and calls the methods
  \<open>cat_and_cont_embed\<close> and \<open>_get_embeddings\<close>. The instance is kept here as it is
  used: the attributes as values, the methods as functions from the input to the
  shapes of their results. Nothing is fixed about them; what a statement needs of them
  is a hypothesis of that statement.
\<close>

record BaseTabularModelWithAttention =
  b_embed_continuous :: bool
  b_input_dim :: nat
  cat_embed_act_fn :: "(shape \<Rightarrow> error + shape) option"
  cat_and_cont_embed :: "tensor2 \<Rightarrow> error + shape option \<times> shape option"
  get_embeddings :: "tensor2 \<Rightarrow> error + shape"

text \<open>
  Modelled from the spec: the class \<open>TransformerEncoder\<close> is not among the sources. A
  block is kept as the function that its call computes on shapes, and its constructor
  is an argument of the constructor below.
\<close>

type_synonym encoder = "shape \<Rightarrow> error + shape"

type_synonym encoder_init = "nat \<Rightarrow> nat \<Rightarrow> bool \<Rightarrow> real \<Rightarrow> real \<Rightarrow> string \<Rightarrow> error + encoder"

record TabTransformer = TabTransformer_args +
  base :: BaseTabularModelWithAttention
  with_cls_token :: bool
  n_cat :: nat
  n_cont :: nat
  transformer_blks :: "(string \<times> encoder) list"
  transformer_mlp :: MLP
  tt_output_dim :: nat

text \<open>\<open>TabTransformer._compute_attn_output_dim\<close>, on the attributes it reads.\<close>

definition compute_attn_output_dim :: "bool \<Rightarrow> bool \<Rightarrow> nat \<Rightarrow> nat \<Rightarrow> nat \<Rightarrow> nat" where
  "compute_attn_output_dim cls embed_cont inp_dim ncat ncont =
     (if cls then (if embed_cont then inp_dim else inp_dim + ncont)
      else if embed_cont then (ncat + ncont) * inp_dim
      else ncat * inp_dim + ncont)"

text \<open>The body of the loop \<open>for i in range(n_blocks)\<close>.\<close>

definition add_transformer_block ::
  "encoder_init \<Rightarrow> TabTransformer_args \<Rightarrow> nat \<Rightarrow> (string \<times> encoder) list
     \<Rightarrow> error + (string \<times> encoder) list" where
  "add_transformer_block TransformerEncoder a i blks =
     bindE (TransformerEncoder (tt_input_dim a) (tt_n_heads a) (tt_use_qkv_bias a)
              (tt_attn_dropout a) (tt_ff_dropout a) (tt_transformer_activation a))
       (\<lambda>enc. Inr (add_module (''transformer_block'' @ string_of_nat i) enc blks))"

text \<open>
  The list of widths that the constructor gives to the MLP: \<open>not mlp_hidden_dims\<close>
  holds for \<open>None\<close> and for the empty list.
\<close>

definition mlp_dims :: "nat \<Rightarrow> nat list option \<Rightarrow> nat list" where
  "mlp_dims attn_output_dim hidden =
     (if hidden = None \<or> hidden = Some []
      then [attn_output_dim, attn_output_dim * 4, attn_output_dim * 2]
      else [attn_output_dim] @ the hidden)"

text \<open>
  \<open>TabTransformer.__init__\<close> after the check of the feature combination: the
  transformer blocks, the MLP and \<open>output_dim\<close>.
\<close>

definition TabTransformer_build ::
  "encoder_init \<Rightarrow> TabTransformer_args \<Rightarrow> BaseTabularModelWithAttention \<Rightarrow> bool \<Rightarrow> nat \<Rightarrow> nat
     \<Rightarrow> error + TabTransformer" where
  "TabTransformer_build TransformerEncoder a self cls ncat ncont =
     bindE (foldE (add_transformer_block TransformerEncoder a) [0..<tt_n_blocks a] []) (\<lambda>blks.
       let attn_output_dim =
             compute_attn_output_dim cls (b_embed_continuous self) (b_input_dim self) ncat ncont;
           hidden = mlp_dims attn_output_dim (tt_mlp_hidden_dims a)
       in bindE (MLP_init hidden (tt_mlp_activation a) (tt_mlp_dropout a)
                   (tt_mlp_batchnorm a) (tt_mlp_batchnorm_last a) (tt_mlp_linear_first a))
            (\<lambda>f. Inr (TabTransformer_args.extend a
                 \<lparr> base = self,
                   with_cls_token = cls,
                   n_cat = ncat,
                   n_cont = ncont,
                   transformer_blks = blks,
                   transformer_mlp = f,
                   tt_output_dim = last hidden \<rparr>)))"

text \<open>
  \<open>TabTransformer.__init__\<close>. The constructor of the base class, \<open>super_init\<close>, runs
  first; then the attributes are assigned and the feature combination is checked.
\<close>

definition TabTransformer_init ::
  "(TabTransformer_args \<Rightarrow> error + BaseTabularModelWithAttention) \<Rightarrow> encoder_init
     \<Rightarrow> TabTransformer_args \<Rightarrow> error + TabTransformer" where
  "TabTransformer_init super_init TransformerEncoder a =
     bindE (super_init a) (\<lambda>self.
       let cls = (tt_column_idx a ''cls_token'' \<noteq> None);
           ncat = (case tt_cat_embed_input a of Some ci \<Rightarrow> length ci | None \<Rightarrow> 0);
           ncont = (case tt_continuous_cols a of Some cs \<Rightarrow> length cs | None \<Rightarrow> 0)
       in if ncont \<noteq> 0 \<and> ncat = 0 \<and> \<not> b_embed_continuous self
          then Inl (ValueError
            ''If only continuous features are used embed_continuous must be set to True'')
          else TabTransformer_build TransformerEncoder a self cls ncat ncont)"





text \<open>
  The example of the docstring of \<open>TabTransformer\<close>: four categorical columns and one
  continuous column, every other argument at its default.
\<close>

definition tt_doc_example :: TabTransformer_args where
  "tt_doc_example =
     \<lparr> tt_column_idx = [''a'' \<mapsto> 0, ''b'' \<mapsto> 1, ''c'' \<mapsto> 2, ''d'' \<mapsto> 3, ''e'' \<mapsto> 4],
       tt_cat_embed_input = Some [(''a'', 4), (''b'', 4), (''c'', 4), (''d'', 4)],
       tt_cat_embed_dropout = 1/10,
       tt_use_cat_bias = False,
       tt_cat_embed_activation = None,
       tt_full_embed_dropout = False,
       tt_shared_embed = False,
       tt_add_shared_embed = False,
       tt_frac_shared_embed = 1/4,
       tt_continuous_cols = Some [''e''],
       tt_cont_norm_layer = None,
       tt_embed_continuous = False,
       tt_cont_embed_dropout = 1/10,
       tt_use_cont_bias = True,
       tt_cont_embed_activation = None,
       tt_input_dim = 32,
       tt_n_heads = 8,
       tt_use_qkv_bias = False,
       tt_n_blocks = 4,
       tt_attn_dropout = 2/10,
       tt_ff_dropout = 1/10,
       tt_transformer_activation = ''gelu'',
       tt_mlp_hidden_dims = None,
       tt_mlp_activation = ''relu'',
       tt_mlp_dropout = 1/10,
       tt_mlp_batchnorm = False,
       tt_mlp_batchnorm_last = False,
       tt_mlp_linear_first = True \<rparr>"

text \<open>
  Modelled from the spec: stand-ins for the two classes that are not among the sources,
  for the examples only. The base class keeps \<open>embed_continuous\<close> and \<open>input_dim\<close>,
  applies no activation, and embeds every declared column into a vector of width
  \<open>input_dim\<close>, leaving the continuous columns as they are unless they are embedded;
  a transformer block keeps the shape of a tensor of its width.
\<close>

definition example_base :: "TabTransformer_args \<Rightarrow> error + BaseTabularModelWithAttention" where
  "example_base a =
     (let ncat = (case tt_cat_embed_input a of Some ci \<Rightarrow> length ci | None \<Rightarrow> 0);
          ncont = (case tt_continuous_cols a of Some cs \<Rightarrow> length cs | None \<Rightarrow> 0)
      in Inr \<lparr> b_embed_continuous = tt_embed_continuous a,
               b_input_dim = tt_input_dim a,
               cat_embed_act_fn = None,
               cat_and_cont_embed = (\<lambda>X. Inr
                 (case tt_cat_embed_input a of
                    None \<Rightarrow> None
                  | Some ci \<Rightarrow> Some [length (rows X), length ci, tt_input_dim a],
                  case tt_continuous_cols a of
                    None \<Rightarrow> None
                  | Some cs \<Rightarrow> Some [length (rows X), length cs])),
               get_embeddings = (\<lambda>X. Inr [length (rows X), ncat + ncont, tt_input_dim a]) \<rparr>)"

definition example_encoder :: encoder_init where
  "example_encoder inp_dim nh use_bias attn_dropout ff_dropout activation =
     Inr (\<lambda>s. if length s = 3 \<and> last s = inp_dim then Inr s else Inl RuntimeError)"

section \<open>Properties of the attention layers\<close>

lemma bindE_Inr [simp]: "bindE (Inr v) f = f v"
  by (simp add: bindE_def)

lemma bindE_Inl [simp]: "bindE (Inl e) f = Inl e"
  by (simp add: bindE_def)

lemma bindE_eq_Inr: "bindE m f = Inr y \<longleftrightarrow> (\<exists>v. m = Inr v \<and> f v = Inr y)"
  by (cases m) simp_all

lemma bindE_eq_Inl: "bindE m f = Inl e \<longleftrightarrow> m = Inl e \<or> (\<exists>v. m = Inr v \<and> f v = Inl e)"
  by (cases m) simp_all

lemma mul_shape_weights: "mul_shape [b, s, Suc 0] [b, s, d] = Inr [b, s, d]"
  by (simp add: mul_shape_def)

text \<open>
  C4 (as amended). For all Python integers \<open>input_dim\<close> and \<open>n_heads\<close> the constructor
  of \<open>QueryKeySelfAttention\<close> ends in \<open>ZeroDivisionError\<close> exactly for zero heads and
  in the assertion error exactly for a nonzero head count that leaves a remainder.
  Otherwise the assertion passes, and the layer is built exactly when the library
  accepts its parts: \<open>input_dim\<close> is not negative and the dropout probability lies
  between 0 and 1. Whenever the layer is built, \<open>head_dim\<close> is the quotient.
\<close>

theorem QueryKeySelfAttention_init_cases:
  "(QueryKeySelfAttention_init input_dim use_bias dropout nh = Inl ZeroDivisionError
      \<longleftrightarrow> nh = 0)
   \<and> (QueryKeySelfAttention_init input_dim use_bias dropout nh
          = Inl (AssertionError ''input_dim must be divisible by n_heads'')
        \<longleftrightarrow> nh \<noteq> 0 \<and> input_dim mod nh \<noteq> 0)
   \<and> ((\<exists>m. QueryKeySelfAttention_init input_dim use_bias dropout nh = Inr m)
        \<longleftrightarrow> nh \<noteq> 0 \<and> input_dim mod nh = 0 \<and> 0 \<le> input_dim \<and> 0 \<le> dropout \<and> dropout \<le> 1)
   \<and> (\<forall>m. QueryKeySelfAttention_init input_dim use_bias dropout nh = Inr m
          \<longrightarrow> head_dim m = input_dim div nh \<and> n_heads m = nh)"
  by (auto simp: QueryKeySelfAttention_init_def nn_Linear_def nn_Dropout_def bindE_eq_Inr
      bindE_eq_Inl split: if_splits)

theorem QueryKeySelfAttention_init_cases_witness:
  "(4::int) \<noteq> 0 \<and> (8::int) mod 4 = 0 \<and> (0::int) \<le> 8 \<and> (0::real) \<le> 1/10 \<and> (1/10::real) \<le> 1
   \<and> (\<exists>m. QueryKeySelfAttention_init 8 False (1/10) 4 = Inr m
          \<and> head_dim m = 2 \<and> n_heads m = 4)"
  using QueryKeySelfAttention_init_cases [of 8 False "1/10" 4] by auto

text \<open>
  C4 as stated fails for zero heads: 8 is not divisible by 0, yet the construction
  does not end in the assertion error; the modulo raises \<open>ZeroDivisionError\<close> before the
  assertion is decided.
\<close>

theorem QueryKeySelfAttention_init_zero_heads:
  "QueryKeySelfAttention_init 8 False (1/10) 0 = Inl ZeroDivisionError
   \<and> \<not> (QueryKeySelfAttention_init 8 False (1/10) 0
            = Inl (AssertionError ''input_dim must be divisible by n_heads'')
          \<longleftrightarrow> \<not> (0::int) dvd 8)"
  by (simp add: QueryKeySelfAttention_init_def)



section \<open>Properties of the residual block\<close>

lemma agrees_fresh:
  "a < length h \<Longrightarrow> agrees h a (I l (h ! a)) (bindE (I l (h ! a)) (\<lambda>v. fresh v h))"
  by (auto simp: agrees_def fresh_def bindE_def nth_append split: sum.splits)

lemma agrees_overwrite:
  "a < length h \<Longrightarrow> agrees h a (I l (h ! a)) (bindE (I l (h ! a)) (\<lambda>v. overwrite a v h))"
  by (auto simp: agrees_def overwrite_def bindE_def split: sum.splits)

lemma call_layer_agrees:
  "a < length h \<Longrightarrow> agrees h a (apply_layer I l (h ! a)) (call_layer I l a h)"
  "a < length h \<Longrightarrow> agrees h a (apply_layers I ls (h ! a)) (call_layers I ls a h)"
proof (induction I l a h and I ls a h rule: call_layer_call_layers.induct)
  case (2 I ip a h)
  then show ?case
    using agrees_fresh[of a h I "LeakyReLU ip"] agrees_overwrite[of a h I "LeakyReLU ip"]
    by (cases ip) simp_all
next
  case (8 I l ls a h)
  show ?case
  proof (cases "call_layer I l a h")
    case (Inl e)
    with 8 show ?thesis by (simp add: agrees_def)
  next
    case (Inr q)
    obtain a' h' where q: "q = (a', h')" by (cases q)
    from 8(1)[OF 8(3)] Inr q have
      1: "a' < length h'" "length h \<le> length h'" "apply_layer I l (h ! a) = Inr (h' ! a')"
         "\<forall>b < length h. b \<noteq> a \<longrightarrow> h' ! b = h ! b" "a' = a \<or> length h \<le> a'"
      by (auto simp: agrees_def)
    from 8(2)[OF 1(1)]
    have 2: "agrees h' a' (apply_layers I ls (h' ! a')) (call_layers I ls a' h')" .
    show ?thesis
      using 1 2 8(3) by (auto simp: Inr q agrees_def split: sum.splits)
  qed
qed (simp_all add: agrees_fresh, simp add: agrees_def)

lemma call_layer_InrD:
  assumes "call_layer I l a h = Inr (r, h')" "a < length h"
  shows "r < length h' \<and> length h \<le> length h' \<and> apply_layer I l (h ! a) = Inr (h' ! r)
    \<and> (\<forall>b < length h. b \<noteq> a \<longrightarrow> h' ! b = h ! b) \<and> (r = a \<or> length h \<le> r)"
  using call_layer_agrees(1)[OF assms(2), of I l] assms(1) by (simp add: agrees_def)

lemma call_layer_InlD:
  assumes "call_layer I l a h = Inl e" "a < length h"
  shows "apply_layer I l (h ! a) = Inl e"
  using call_layer_agrees(1)[OF assms(2), of I l] assms(1) by (simp add: agrees_def)

lemma BasicBlock_call_Inr:
  assumes x: "x < length h"
    and run: "BasicBlock_call I add (BasicBlock_init inp out p rs) x h = Inr (r, h')"
  shows "r < length h' \<and> residual_sum I add p inp out rs (h ! x) = Inr (h' ! r)"
proof (cases rs)
  case None
  with x run show ?thesis
    by (auto simp: BasicBlock_call_def BasicBlock_init_def residual_sum_def block_T_def
        bindE_eq_Inr fresh_def overwrite_def nth_append split: if_splits)
next
  case (Some rl)
  with x run show ?thesis
    by (auto simp: BasicBlock_call_def BasicBlock_init_def residual_sum_def block_T_def
        bindE_eq_Inr fresh_def overwrite_def nth_append split: if_splits
        dest!: call_layer_InrD)
qed

lemma BasicBlock_call_Inl:
  assumes x: "x < length h"
    and run: "BasicBlock_call I add (BasicBlock_init inp out p rs) x h = Inl e"
  shows "residual_sum I add p inp out rs (h ! x) = Inl e"
proof (cases rs)
  case None
  with x run show ?thesis
    by (auto simp: BasicBlock_call_def BasicBlock_init_def residual_sum_def block_T_def
        bindE_eq_Inl bindE_eq_Inr fresh_def overwrite_def nth_append split: if_splits)
next
  case (Some rl)
  with x run show ?thesis
    by (auto simp: BasicBlock_call_def BasicBlock_init_def residual_sum_def block_T_def
        bindE_eq_Inl bindE_eq_Inr fresh_def overwrite_def nth_append split: if_splits
        dest!: call_layer_InrD call_layer_InlD)
qed

lemma BasicBlock_forward_residual:
  "BasicBlock_forward I add (BasicBlock_init inp out p rs) x = residual_sum I add p inp out rs x"
  by (cases rs) (auto simp: BasicBlock_forward_def BasicBlock_init_def residual_sum_def
      block_T_def bindE_def split: sum.splits)

text \<open>
  C6. For every block \<open>BasicBlock(inp, out, dropout, resize)\<close>, every reading of the
  primitive layers and of the sum, and every input object \<open>x\<close>: the call, with its
  in-place activation and in-place sum, returns an object holding
  \<open>leaky_relu (T x + identity)\<close> for the value that \<open>x\<close> had at the call, where \<open>T\<close> is
  the two linear/batch-norm stages with the optional dropout after the first, and
  \<open>identity\<close> is \<open>x\<close> without a resize module and \<open>resize x\<close> with one. The call fails
  exactly when one of these layers fails.
\<close>

theorem BasicBlock_call_residual:
  assumes "x < length h"
  shows "case BasicBlock_call I add (BasicBlock_init inp out p rs) x h of
           Inl e \<Rightarrow> residual_sum I add p inp out rs (h ! x) = Inl e
         | Inr (r, h') \<Rightarrow>
             r < length h' \<and> residual_sum I add p inp out rs (h ! x) = Inr (h' ! r)"
  using BasicBlock_call_Inr[OF assms] BasicBlock_call_Inl[OF assms]
  by (auto split: sum.splits)

theorem BasicBlock_call_residual_witness:
  "(0::nat) < length [[2, 4::nat]]
   \<and> BasicBlock_call prim_shape iadd_shape
        (BasicBlock_init 4 8 (1/10) (Some (Sequential [Linear 4 8 True, BatchNorm1d 8]))) 0 [[2, 4]]
       = Inr (5, [[2, 4], [2, 8], [2, 8], [2, 8], [2, 8], [2, 8], [2, 8], [2, 8]])
   \<and> residual_sum prim_shape iadd_shape (1/10) 4 8
        (Some (Sequential [Linear 4 8 True, BatchNorm1d 8])) [2, 4] = Inr [2, 8]"
proof -
  have run: "BasicBlock_call prim_shape iadd_shape
        (BasicBlock_init 4 8 (1/10) (Some (Sequential [Linear 4 8 True, BatchNorm1d 8]))) 0 [[2, 4]]
       = Inr (5, [[2, 4], [2, 8], [2, 8], [2, 8], [2, 8], [2, 8], [2, 8], [2, 8]])"
    by (simp add: BasicBlock_call_def BasicBlock_init_def fresh_def overwrite_def
        iadd_shape_def mul_shape_def values_per_channel_def)
  have len: "(0::nat) < length [[2, 4::nat]]" by simp
  show ?thesis
    using BasicBlock_call_residual [OF len, where I = prim_shape and add = iadd_shape
        and inp = 4 and out = 8 and p = "1/10"
        and rs = "Some (Sequential [Linear 4 8 True, BatchNorm1d 8])"]
    by (simp add: run)
qed

section \<open>Properties of the context attention\<close>

lemma ContextAttention_init_InrD:
  assumes "ContextAttention_init input_dim p sas = Inr m"
  shows "m = \<lparr> ca_inp_proj = Linear input_dim input_dim True,
               ca_context = Linear input_dim 1 False,
               ca_dropout = Dropout p,
               sum_along_seq = sas,
               ca_attn_weights = None \<rparr>"
  using assms
  by (auto simp: ContextAttention_init_def nn_Dropout_def bindE_eq_Inr split: if_splits)

lemma ContextAttention_forward_Inr:
  assumes m: "ContextAttention_init input_dim p sas = Inr m" and x: "X < length h"
    and run: "ContextAttention_forward I ops m X h = Inr ((r, h'), m')"
  shows "r < length h' \<and> weighted_input I ops input_dim p sas (h ! X) = Inr (h' ! r)
    \<and> h' ! X = h ! X
    \<and> (\<exists>a < length h'. ca_attn_weights m' = Some a
          \<and> bindE (attention_weights I ops input_dim (h ! X)) (op_squeeze ops 2) = Inr (h' ! a))"
  using x run unfolding ContextAttention_init_InrD[OF m]
  by (auto simp: ContextAttention_forward_def weighted_input_def attention_weights_def
      bindE_eq_Inr fresh_def overwrite_def nth_append Let_def split: if_splits)

lemma ContextAttention_forward_Inl:
  assumes m: "ContextAttention_init input_dim p sas = Inr m" and x: "X < length h"
    and run: "ContextAttention_forward I ops m X h = Inl e"
  shows "weighted_input I ops input_dim p sas (h ! X) = Inl e"
  using x run unfolding ContextAttention_init_InrD[OF m]
  by (auto simp: ContextAttention_forward_def weighted_input_def attention_weights_def
      bindE_eq_Inr bindE_eq_Inl fresh_def overwrite_def nth_append Let_def split: if_splits)

lemma weighted_input_shape:
  "weighted_input prim_shape shape_ops input_dim p sas [b, s, input_dim]
     = Inr (if sas then [b, input_dim] else [b, s, input_dim])"
  by (simp add: weighted_input_def attention_weights_def shape_ops_def softmax_shape_def
      squeeze_shape_def sum_shape_def mul_shape_weights)

text \<open>
  C8. For every constructed \<open>ContextAttention\<close>, every reading of its layers and of
  the tensor operations, and every input object \<open>X\<close>: the call returns an object that
  holds the attention-weighted input, that is the input multiplied by the weights
  \<open>dropout (softmax (context (tanh (inp_proj X))))\<close>, summed along the sequence
  dimension when \<open>sum_along_seq\<close> is set and not summed otherwise; it fails exactly
  when one of these operations fails, it leaves the input object as it was, and it
  keeps the squeezed weights in the module. On an input of shape
  \<open>(b, s, input_dim)\<close> the weighted input has shape \<open>(b, input_dim)\<close> when summed and
  \<open>(b, s, input_dim)\<close> when not.
\<close>

theorem ContextAttention_forward_weighted:
  assumes "ContextAttention_init input_dim p sas = Inr m" and "X < length h"
  shows "(case ContextAttention_forward I ops m X h of
            Inl e \<Rightarrow> weighted_input I ops input_dim p sas (h ! X) = Inl e
          | Inr ((r, h'), m') \<Rightarrow>
              r < length h' \<and> weighted_input I ops input_dim p sas (h ! X) = Inr (h' ! r)
              \<and> h' ! X = h ! X
              \<and> (\<exists>a < length h'. ca_attn_weights m' = Some a
                    \<and> bindE (attention_weights I ops input_dim (h ! X)) (op_squeeze ops 2)
                        = Inr (h' ! a)))
       \<and> weighted_input prim_shape shape_ops input_dim p sas [b, s, input_dim]
           = Inr (if sas then [b, input_dim] else [b, s, input_dim])"
  using ContextAttention_forward_Inr[OF assms] ContextAttention_forward_Inl[OF assms]
    weighted_input_shape[of input_dim p sas b s]
  by (auto split: sum.splits)

theorem ContextAttention_forward_weighted_witness:
  "ContextAttention_init 8 (1/10) True
     = Inr \<lparr> ca_inp_proj = Linear 8 8 True, ca_context = Linear 8 1 False,
             ca_dropout = Dropout (1/10), sum_along_seq = True, ca_attn_weights = None \<rparr>
   \<and> (0::nat) < length [[5, 3, 8::nat]]
   \<and> ContextAttention_forward prim_shape shape_ops
        \<lparr> ca_inp_proj = Linear 8 8 True, ca_context = Linear 8 1 False,
          ca_dropout = Dropout (1/10), sum_along_seq = True, ca_attn_weights = None \<rparr>
        0 [[5, 3, 8]]
     = Inr ((7, [[5, 3, 8], [5, 3, 8], [5, 3, 1], [5, 3, 1], [5, 3], [5, 3, 1], [5, 3, 8], [5, 8]]),
            \<lparr> ca_inp_proj = Linear 8 8 True, ca_context = Linear 8 1 False,
              ca_dropout = Dropout (1/10), sum_along_seq = True, ca_attn_weights = Some 4 \<rparr>)
   \<and> weighted_input prim_shape shape_ops 8 (1/10) True [5, 3, 8] = Inr [5, 8]"
proof -
  have c: "ContextAttention_init 8 (1/10) True
     = Inr \<lparr> ca_inp_proj = Linear 8 8 True, ca_context = Linear 8 1 False,
             ca_dropout = Dropout (1/10), sum_along_seq = True, ca_attn_weights = None \<rparr>"
    by (simp add: ContextAttention_init_def nn_Dropout_def)
  have len: "(0::nat) < length [[5, 3, 8::nat]]" by simp
  have run: "ContextAttention_forward prim_shape shape_ops
        \<lparr> ca_inp_proj = Linear 8 8 True, ca_context = Linear 8 1 False,
          ca_dropout = Dropout (1/10), sum_along_seq = True, ca_attn_weights = None \<rparr>
        0 [[5, 3, 8]]
     = Inr ((7, [[5, 3, 8], [5, 3, 8], [5, 3, 1], [5, 3, 1], [5, 3], [5, 3, 1], [5, 3, 8], [5, 8]]),
            \<lparr> ca_inp_proj = Linear 8 8 True, ca_context = Linear 8 1 False,
              ca_dropout = Dropout (1/10), sum_along_seq = True, ca_attn_weights = Some 4 \<rparr>)"
    by (simp add: ContextAttention_forward_def shape_ops_def fresh_def overwrite_def
        softmax_shape_def squeeze_shape_def sum_shape_def mul_shape_def)
  show ?thesis
    using ContextAttention_forward_weighted [OF c len, where I = prim_shape and ops = shape_ops
        and b = 5 and s = 3] c run
    by simp
qed

section \<open>Properties of DenseResnet\<close>

lemma update_fresh_name:
  "k \<notin> fst ` set xs \<Longrightarrow> AList.update k v xs = xs @ [(k, v)]"
  by (induction xs) auto

lemma digits_value_string_of_nat: "digits_value (string_of_nat n) = n"
proof (induction n rule: string_of_nat.induct)
  case (1 n)
  show ?case
  proof (cases "n < 10")
    case True
    then show ?thesis
      by (subst string_of_nat.simps) (simp add: digits_value_def digit_char_def)
  next
    case False
    with 1 show ?thesis
      by (subst string_of_nat.simps) (simp add: digits_value_def digit_char_def)
  qed
qed

lemma string_of_nat_inj: "string_of_nat m = string_of_nat n \<longleftrightarrow> m = n"
  by (metis digits_value_string_of_nat)

lemma foldE_append: "foldE f (xs @ ys) s = bindE (foldE f xs s) (foldE f ys)"
  by (induction xs arbitrary: s) (auto simp: bindE_def split: sum.splits)

lemma BasicBlock_new_accepts:
  "p \<le> 1 \<Longrightarrow> BasicBlock_new inp out p rs = Inr (BasicBlock_init inp out p rs)"
  by (simp add: BasicBlock_new_def nn_Dropout_def)

lemma BasicBlock_new_refuses:
  "1 < p \<Longrightarrow> BasicBlock_new inp out p rs
     = Inl (ValueError ''dropout probability has to be between 0 and 1'')"
  by (simp add: BasicBlock_new_def nn_Dropout_def)

lemma add_block_accepts:
  "p \<le> 1 \<Longrightarrow> add_block bd p (Suc n) children
     = Inr (add_module (''block_'' @ string_of_nat n)
              (Block (BasicBlock_init (bd ! n) (bd ! Suc n) p (expected_resize (bd ! n) (bd ! Suc n))))
              children)"
  by (simp add: add_block_def BasicBlock_new_accepts expected_resize_def Let_def)

lemma foldE_add_block:
  assumes "fst ` set start \<subseteq> {''lin1'', ''bn1''}" and p: "p \<le> 1"
  shows "foldE (add_block bd p) [Suc 0..<Suc n] start
           = Inr (start @ map (block_child bd p) [0..<n])"
proof (induction n)
  case 0
  show ?case by simp
next
  case (Suc n)
  have new: "''block_'' @ string_of_nat n \<notin> fst ` set (start @ map (block_child bd p) [0..<n])"
    using assms(1) by (auto simp: block_child_def string_of_nat_inj image_iff)
  have "foldE (add_block bd p) [Suc 0..<Suc (Suc n)] start
        = bindE (foldE (add_block bd p) [Suc 0..<Suc n] start)
            (\<lambda>children. add_block bd p (Suc n) children)"
    by (simp add: foldE_append bindE_def split: sum.splits)
  also have "\<dots> = add_block bd p (Suc n) (start @ map (block_child bd p) [0..<n])"
    by (simp only: Suc.IH bindE_Inr)
  also have "\<dots> = Inr ((start @ map (block_child bd p) [0..<n]) @ [block_child bd p n])"
    using update_fresh_name[OF new]
    by (simp add: add_block_accepts[OF p] add_module_def block_child_def)
  finally show ?case by simp
qed

lemma DenseResnet_init_children:
  assumes "bd \<noteq> []" and "p \<le> 1"
  shows "DenseResnet_init input_dim bd p =
    Inr \<lparr> dr_input_dim = input_dim, dr_blocks_dims = bd, dr_dropout = p,
          dense_resnet =
            (if input_dim \<noteq> hd bd
             then [(''lin1'', Plain (Linear input_dim (hd bd) True)),
                   (''bn1'', Plain (BatchNorm1d (hd bd)))]
             else [])
            @ map (block_child bd p) [0..<length bd - 1] \<rparr>"
proof -
  obtain b0 bs where bd: "bd = b0 # bs" using assms by (cases bd) auto
  have n: "[1..<length bd] = [Suc 0..<Suc (length bd - 1)]" using bd by simp
  show ?thesis
    unfolding DenseResnet_init_def n
    by (simp add: bd foldE_add_block[OF _ assms(2)] del: upt_Suc)
qed

lemma DenseResnet_init_single:
  "DenseResnet_init input_dim [b0] p =
    Inr \<lparr> dr_input_dim = input_dim, dr_blocks_dims = [b0], dr_dropout = p,
          dense_resnet =
            (if input_dim \<noteq> b0
             then [(''lin1'', Plain (Linear input_dim b0 True)), (''bn1'', Plain (BatchNorm1d b0))]
             else []) \<rparr>"
  by (simp add: DenseResnet_init_def)

lemma DenseResnet_init_refuses:
  assumes "2 \<le> length bd" and "1 < p"
  shows "DenseResnet_init input_dim bd p
           = Inl (ValueError ''dropout probability has to be between 0 and 1'')"
proof -
  obtain b0 b1 bs where bd: "bd = b0 # b1 # bs"
    using assms(1) by (cases bd; cases "tl bd") auto
  have "1 < length bd" using bd by simp
  then have u: "[1..<length bd] = 1 # [Suc 1..<length bd]"
    by (rule upt_conv_Cons)
  have "add_block bd p 1 children
          = Inl (ValueError ''dropout probability has to be between 0 and 1'')" for children
    by (simp add: add_block_def BasicBlock_new_refuses[OF assms(2)] Let_def)
  then show ?thesis
    unfolding DenseResnet_init_def u by (simp add: bd Let_def del: upt_Suc)
qed






section \<open>Properties of TabResnet\<close>

lemma sel_extend:
  "embed_input (TabResnet_args.extend a r) = embed_input a"
  "column_idx (TabResnet_args.extend a r) = column_idx a"
  "continuous_cols (TabResnet_args.extend a r) = continuous_cols a"
  "mlp_hidden_dims (TabResnet_args.extend a r) = mlp_hidden_dims a"
  "batchnorm_cont (TabResnet_args.extend a r) = batchnorm_cont a"
  "concat_cont_first (TabResnet_args.extend a r) = concat_cont_first a"
  "blocks_dims (TabResnet_args.extend a r) = blocks_dims a"
  by (simp_all add: TabResnet_args.defs)

lemma sel_extend_more:
  "embed_layers (TabResnet_args.extend a \<lparr>embed_layers = el, embedding_dropout = ed, cont_norm = cn,
      tab_resnet = tr, tab_resnet_mlp = tm, output_dim = od\<rparr>) = el"
  "embedding_dropout (TabResnet_args.extend a \<lparr>embed_layers = el, embedding_dropout = ed, cont_norm = cn,
      tab_resnet = tr, tab_resnet_mlp = tm, output_dim = od\<rparr>) = ed"
  "cont_norm (TabResnet_args.extend a \<lparr>embed_layers = el, embedding_dropout = ed, cont_norm = cn,
      tab_resnet = tr, tab_resnet_mlp = tm, output_dim = od\<rparr>) = cn"
  "tab_resnet (TabResnet_args.extend a \<lparr>embed_layers = el, embedding_dropout = ed, cont_norm = cn,
      tab_resnet = tr, tab_resnet_mlp = tm, output_dim = od\<rparr>) = tr"
  "tab_resnet_mlp (TabResnet_args.extend a \<lparr>embed_layers = el, embedding_dropout = ed, cont_norm = cn,
      tab_resnet = tr, tab_resnet_mlp = tm, output_dim = od\<rparr>) = tm"
  "output_dim (TabResnet_args.extend a \<lparr>embed_layers = el, embedding_dropout = ed, cont_norm = cn,
      tab_resnet = tr, tab_resnet_mlp = tm, output_dim = od\<rparr>) = od"
  by (simp_all add: TabResnet_args.defs TabResnet.defs)

lemma broadcast_rev_same: "broadcast_rev xs xs = Inr xs"
  by (induction xs) simp_all

lemma iadd_shape_same: "iadd_shape s s = Inr s"
  by (simp add: iadd_shape_def mul_shape_def broadcast_rev_same)

lemma cat1_widths:
  "ds \<noteq> [] \<Longrightarrow> cat1 (map (\<lambda>d. [n, d]) ds) = Inr [n, sum_list ds]"
  by (cases ds) (auto simp: cat1_def list_all_iff comp_def)

lemma cat1_two: "cat1 [[n, d], [n, e]] = Inr [n, d + e]"
  using cat1_widths[of "[d, e]" n] by simp

lemma BatchNorm1d_shape:
  "n \<noteq> 1 \<Longrightarrow> 0 < k \<Longrightarrow> prim_shape (BatchNorm1d k) [n, k] = Inr [n, k]"
  by (simp add: values_per_channel_def)

lemma BasicBlock_forward_shape:
  assumes "n \<noteq> 1" "0 < out"
  shows "BasicBlock_forward prim_shape iadd_shape
     (BasicBlock_init inp out p (expected_resize inp out)) [n, inp] = Inr [n, out]"
  using assms
  by (simp add: BasicBlock_forward_def BasicBlock_init_def iadd_shape_same expected_resize_def
      BatchNorm1d_shape del: prim_shape.simps(2))

lemma children_forward_append:
  "children_forward I add (xs @ ys) v
     = bindE (children_forward I add xs v) (children_forward I add ys)"
  by (induction xs arbitrary: v) (auto simp: bindE_def split: sum.splits)

lemma blocks_forward_shape:
  "k < length bd \<Longrightarrow> n \<noteq> 1 \<Longrightarrow> \<forall>d \<in> set bd. 0 < d \<Longrightarrow>
   children_forward prim_shape iadd_shape (map (block_child bd p) [0..<k]) [n, bd ! 0]
     = Inr [n, bd ! k]"
proof (induction k)
  case 0
  show ?case by simp
next
  case (Suc k)
  then have "0 < bd ! Suc k" by simp
  with Suc show ?case
    by (simp add: children_forward_append block_child_def BasicBlock_forward_shape)
qed

lemma DenseResnet_init_InrD:
  assumes "DenseResnet_init d bd p = Inr m"
  shows "bd \<noteq> []"
    and "dense_resnet m =
            (if d \<noteq> hd bd
             then [(''lin1'', Plain (Linear d (hd bd) True)), (''bn1'', Plain (BatchNorm1d (hd bd)))]
             else [])
            @ map (block_child bd p) [0..<length bd - 1]"
proof -
  from assms show ne: "bd \<noteq> []" by (auto simp: DenseResnet_init_def)
  show "dense_resnet m =
            (if d \<noteq> hd bd
             then [(''lin1'', Plain (Linear d (hd bd) True)), (''bn1'', Plain (BatchNorm1d (hd bd)))]
             else [])
            @ map (block_child bd p) [0..<length bd - 1]"
  proof (cases "p \<le> 1")
    case True
    from assms DenseResnet_init_children[OF ne True, of d] show ?thesis by auto
  next
    case False
    with assms DenseResnet_init_refuses[of bd p d] have "\<not> 2 \<le> length bd" by auto
    with ne obtain b0 where "bd = [b0]" by (cases bd; cases "tl bd") auto
    with assms show ?thesis by (auto simp: DenseResnet_init_single)
  qed
qed

lemma DenseResnet_forward_shape:
  assumes "DenseResnet_init d bd p = Inr m" and n: "n \<noteq> 1" and pos: "\<forall>d \<in> set bd. 0 < d"
  shows "DenseResnet_forward prim_shape iadd_shape m [n, d] = Inr [n, last bd]"
proof -
  note ne = DenseResnet_init_InrD(1)[OF assms(1)] and m = DenseResnet_init_InrD(2)[OF assms(1)]
  from ne have k: "length bd - 1 < length bd" and l: "last bd = bd ! (length bd - 1)"
    and h: "hd bd = bd ! 0"
    by (simp_all add: last_conv_nth hd_conv_nth)
  from ne pos have b0: "0 < bd ! 0" by (cases bd) auto
  show ?thesis
    using blocks_forward_shape[OF k n pos, of p] n b0
    by (simp add: DenseResnet_forward_def m children_forward_append l h BatchNorm1d_shape
        del: prim_shape.simps(2))
qed

lemma apply_layers_append:
  "apply_layers I (xs @ ys) v = bindE (apply_layers I xs v) (apply_layers I ys)"
  by (induction xs arbitrary: v) (auto simp: bindE_def split: sum.splits)

lemma mapE_append:
  "mapE f (xs @ ys) = bindE (mapE f xs) (\<lambda>a. bindE (mapE f ys) (\<lambda>b. Inr (a @ b)))"
  by (induction xs) (auto simp: bindE_def split: sum.splits)

lemma dense_layer_shape:
  assumes "dense_layer inp out act p bn lf = Inr l" "n \<noteq> 1" "0 < inp" "0 < out"
  shows "apply_layer prim_shape l [n, inp] = Inr [n, out]"
  using assms
  by (auto simp: dense_layer_def bindE_eq_Inr BatchNorm1d_shape nn_Dropout_def Let_def
      simp del: prim_shape.simps(2) split: if_splits)

lemma dense_layers_shape:
  "mapE (\<lambda>i. dense_layer (d ! (i - 1)) (d ! i) act p (bn i) lf) [Suc 0..<Suc k] = Inr ls
   \<Longrightarrow> k < length d \<Longrightarrow> n \<noteq> 1 \<Longrightarrow> \<forall>x \<in> set d. 0 < x
   \<Longrightarrow> apply_layers prim_shape ls [n, d ! 0] = Inr [n, d ! k]"
proof (induction k arbitrary: ls)
  case 0
  then show ?case by simp
next
  case (Suc k)
  from Suc.prems(1) obtain ls' l where
    ls': "mapE (\<lambda>i. dense_layer (d ! (i - 1)) (d ! i) act p (bn i) lf) [Suc 0..<Suc k] = Inr ls'"
    and l: "dense_layer (d ! k) (d ! Suc k) act p (bn (Suc k)) lf = Inr l"
    and ls: "ls = ls' @ [l]"
    by (auto simp: mapE_append bindE_eq_Inr)
  from Suc.prems have pos: "0 < d ! k" "0 < d ! Suc k" by simp_all
  from Suc.IH[OF ls'] Suc.prems
  have "apply_layers prim_shape ls' [n, d ! 0] = Inr [n, d ! k]" by simp
  then show ?case
    using dense_layer_shape[OF l Suc.prems(3) pos]
    by (simp add: ls apply_layers_append)
qed

lemma MLP_forward_shape:
  assumes "MLP_init d act p bn bnl lf = Inr f" "d \<noteq> []" "n \<noteq> 1" "\<forall>x \<in> set d. 0 < x"
  shows "MLP_forward prim_shape f [n, hd d] = Inr [n, last d]"
proof -
  from assms(2) have k: "length d - 1 < length d" and l: "last d = d ! (length d - 1)"
    and h: "hd d = d ! 0" and u: "[1..<length d] = [Suc 0..<Suc (length d - 1)]"
    by (simp_all add: last_conv_nth hd_conv_nth)
  from assms(1) obtain ls where
    ls: "mapE (\<lambda>i. dense_layer (d ! (i - 1)) (d ! i) act p
                 (bn \<and> (i \<noteq> length d - 1 \<or> bnl)) lf) [Suc 0..<Suc (length d - 1)] = Inr ls"
    and f: "f = \<lparr> mlp = ls \<rparr>"
    unfolding MLP_init_def u by (auto simp: bindE_eq_Inr)
  from dense_layers_shape[OF ls k assms(3,4)] show ?thesis
    by (simp add: MLP_forward_def f l h)
qed

lemma mapE_all_Inr:
  "(\<And>x. x \<in> set xs \<Longrightarrow> f x = Inr (g x)) \<Longrightarrow> mapE f xs = Inr (map g xs)"
  by (induction xs) simp_all

lemma map_of_fold_update:
  assumes "inj k"
  shows "map_of (fold (\<lambda>(c, v). AList.update (k c) (f v)) ei acc) (k c)
         = (case map_of (rev ei) c of Some v \<Rightarrow> Some (f v) | None \<Rightarrow> map_of acc (k c))"
proof (induction ei arbitrary: acc)
  case Nil
  show ?case by simp
next
  case (Cons e ei)
  obtain c' v' where e: "e = (c', v')" by (cases e)
  show ?case
    using assms
    by (auto simp: e Cons.IH update_conv map_add_def inj_eq split: option.splits)
qed

lemma lookup_embed_layer:
  assumes "distinct (map fst ei)" "(col, val, wd) \<in> set ei"
  shows "lookup_module (build_embed_layers ei) (''emb_layer_'' @ col)
           = Inr (Embedding (val + 1) wd (Some 0))"
proof -
  define k where "k = (\<lambda>c. ''emb_layer_'' @ c)"
  define f where "f = (\<lambda>(v :: nat, w). Embedding (v + 1) w (Some 0))"
  have b: "build_embed_layers ei = fold (\<lambda>(c, v). AList.update (k c) (f v)) ei []"
    by (simp add: build_embed_layers_def add_module_def[abs_def] k_def f_def case_prod_unfold)
  have k: "inj k" by (simp add: k_def inj_on_def)
  have "map_of (rev ei) col = Some (val, wd)"
    using assms by (intro map_of_is_SomeI) (simp_all add: rev_map[symmetric])
  then have "map_of (build_embed_layers ei) (k col) = Some (f (val, wd))"
    by (simp add: b map_of_fold_update[OF k])
  then show ?thesis
    by (simp add: lookup_module_def k_def f_def)
qed

lemma TabResnet_init_InrD:
  assumes "TabResnet_init a = Inr m"
  shows "2 \<le> length (blocks_dims a)"
    and "\<exists>resnet dp the_mlp.
          DenseResnet_init
            (if concat_cont_first a
             then sum_list (map (\<lambda>embed. snd (snd embed)) (embed_input a))
                  + (case continuous_cols a of Some cs \<Rightarrow> length cs | None \<Rightarrow> 0)
             else sum_list (map (\<lambda>embed. snd (snd embed)) (embed_input a)))
            (blocks_dims a) (blocks_dropout a) = Inr resnet
          \<and> (\<exists>p. dp = Dropout p)
          \<and> (case mlp_hidden_dims a of
                None \<Rightarrow> the_mlp = None
              | Some hidden \<Rightarrow>
                  \<exists>f. the_mlp = Some f
                    \<and> MLP_init (base_dim a # hidden)
                         (mlp_activation a) (mlp_dropout a)
                         (mlp_batchnorm a) (mlp_batchnorm_last a) (mlp_linear_first a) = Inr f)
          \<and> m = TabResnet_args.extend a
               \<lparr> embed_layers = build_embed_layers (embed_input a),
                 embedding_dropout = dp,
                 cont_norm = (case continuous_cols a of
                     Some cs \<Rightarrow> if batchnorm_cont a then Some (BatchNorm1d (length cs)) else None
                   | None \<Rightarrow> None),
                 tab_resnet = resnet,
                 tab_resnet_mlp = the_mlp,
                 output_dim = (case mlp_hidden_dims a of
                     Some hidden \<Rightarrow> last (base_dim a # hidden)
                   | None \<Rightarrow> base_dim a) \<rparr>"
  using assms
  by (auto simp: TabResnet_init_def Let_def bindE_eq_Inr base_dim_def nn_Dropout_def
      split: if_splits option.splits prod.splits)

lemma embed_step:
  assumes dist: "distinct (map fst ei)"
    and cols: "\<forall>(col, val, wd) \<in> set ei. \<exists>j < width X. idx col = Some j
                 \<and> (\<forall>r \<in> set (rows X). 0 \<le> long (r ! j) \<and> long (r ! j) \<le> int val)"
  shows "mapE (\<lambda>(col, _, _).
              bindE (lookup_module (build_embed_layers ei) (''emb_layer_'' @ col)) (\<lambda>emb.
              bindE (lookup_key idx col) (\<lambda>j.
              bindE (select_column j X) (\<lambda>column.
              Embedding_forward emb (map long column))))) ei
         = Inr (map (\<lambda>embed. [length (rows X), snd (snd embed)]) ei)"
    (is "mapE ?f ei = _")
proof (rule mapE_all_Inr)
  fix e assume mem: "e \<in> set ei"
  obtain col val wd where e: "e = (col, val, wd)" by (cases e)
  from cols mem e obtain j where j: "j < width X" "idx col = Some j"
    and codes: "\<forall>r \<in> set (rows X). 0 \<le> long (r ! j) \<and> long (r ! j) \<le> int val"
    by fastforce
  have "lookup_module (build_embed_layers ei) (''emb_layer_'' @ col)
          = Inr (Embedding (val + 1) wd (Some 0))"
    using lookup_embed_layer[OF dist mem[unfolded e]] .
  then have "?f (col, val, wd) = Inr [length (rows X), wd]"
    using j codes
    by (auto simp: lookup_key_def select_column_def list_all_iff simp del: append.simps)
  then show "?f e = Inr [length (rows X), snd (snd e)]"
    by (simp only: e snd_conv)
qed

lemma cont_step:
  assumes "\<forall>col \<in> set cs. \<exists>j < width X. idx col = Some j"
  shows "bindE (mapE (lookup_key idx) cs) (\<lambda>cont_idx. select_columns cont_idx X)
         = Inr [length (rows X), length cs]"
proof -
  have "lookup_key idx c = Inr (the (idx c))" if "c \<in> set cs" for c
    using assms that by (auto simp: lookup_key_def)
  then have "mapE (lookup_key idx) cs = Inr (map (\<lambda>c. the (idx c)) cs)"
    by (rule mapE_all_Inr)
  moreover have "list_all (\<lambda>j. j < width X) (map (\<lambda>c. the (idx c)) cs)"
    using assms by (auto simp: list_all_iff)
  ultimately show ?thesis
    by (simp add: select_columns_def)
qed

text \<open>
  C1 (as amended). Let \<open>TabResnet\<close> be constructed from a configuration (so
  \<open>blocks_dims\<close> has at least two widths) that declares at least one categorical
  column, under distinct names, with positive block and MLP widths, an MLP activation
  that the documentation names, and at least one continuous column where the
  continuous columns are normalised. Let the input be a two-dimensional tensor whose
  number of rows \<open>N\<close> is not 1, in which every declared column has a position and
  every categorical column holds codes between 0 and the column's number of values.
  Then the forward pass returns shape \<open>(N, output_dim)\<close>, for each choice of
  \<open>continuous_cols\<close>, \<open>batchnorm_cont\<close>, \<open>concat_cont_first\<close> and
  \<open>mlp_hidden_dims\<close>. The attribute \<open>output_dim\<close> is the last entry of
  \<open>mlp_hidden_dims\<close> when an MLP with hidden widths is configured, otherwise
  \<open>blocks_dims[-1]\<close> when \<open>concat_cont_first\<close> is set, otherwise
  \<open>len(continuous_cols) + blocks_dims[-1]\<close>.
\<close>

theorem TabResnet_forward_shape:
  assumes init: "TabResnet_init a = Inr m"
    and tensor: "is_tensor2 X"
    and batch: "length (rows X) \<noteq> 1"
    and ne: "embed_input a \<noteq> []"
    and dist: "distinct (map fst (embed_input a))"
    and cat: "\<forall>(col, val, wd) \<in> set (embed_input a).
                \<exists>j < width X. column_idx a col = Some j
                  \<and> (\<forall>r \<in> set (rows X). 0 \<le> long (r ! j) \<and> long (r ! j) \<le> int val)"
    and cont: "\<forall>cs. continuous_cols a = Some cs
                 \<longrightarrow> (\<forall>col \<in> set cs. \<exists>j < width X. column_idx a col = Some j)
                   \<and> (batchnorm_cont a \<longrightarrow> cs \<noteq> [])"
    and blocks: "\<forall>d \<in> set (blocks_dims a). 0 < d"
    and hidden: "\<forall>hidden. mlp_hidden_dims a = Some hidden
                   \<longrightarrow> (\<forall>d \<in> set hidden. 0 < d)
                     \<and> mlp_activation a \<in> {''tanh'', ''relu'', ''leaky_relu'', ''gelu''}"
  shows "TabResnet_forward m X = Inr [length (rows X), output_dim m]
    \<and> output_dim m =
        (let base = (if concat_cont_first a then last (blocks_dims a)
                     else (case continuous_cols a of Some cs \<Rightarrow> length cs | None \<Rightarrow> 0)
                          + last (blocks_dims a))
         in case mlp_hidden_dims a of
              Some hidden \<Rightarrow> if hidden = [] then base else last hidden
            | None \<Rightarrow> base)"
proof -
  define n where "n = length (rows X)"
  have n: "n \<noteq> 1" using batch by (simp add: n_def)
  from TabResnet_init_InrD(1)[OF init] have bne: "blocks_dims a \<noteq> []" by auto
  with blocks have lastpos: "0 < last (blocks_dims a)" by simp
  then have basepos: "0 < base_dim a" by (simp add: base_dim_def)
  from TabResnet_init_InrD(2)[OF init] obtain resnet dp the_mlp where
    resnet: "DenseResnet_init
            (if concat_cont_first a
             then sum_list (map (\<lambda>embed. snd (snd embed)) (embed_input a))
                  + (case continuous_cols a of Some cs \<Rightarrow> length cs | None \<Rightarrow> 0)
             else sum_list (map (\<lambda>embed. snd (snd embed)) (embed_input a)))
            (blocks_dims a) (blocks_dropout a) = Inr resnet"
    and dp: "\<exists>p. dp = Dropout p"
    and the_mlp: "case mlp_hidden_dims a of
                None \<Rightarrow> the_mlp = None
              | Some hidden \<Rightarrow>
                  \<exists>f. the_mlp = Some f
                    \<and> MLP_init (base_dim a # hidden)
                         (mlp_activation a) (mlp_dropout a)
                         (mlp_batchnorm a) (mlp_batchnorm_last a) (mlp_linear_first a) = Inr f"
    and m: "m = TabResnet_args.extend a
               \<lparr> embed_layers = build_embed_layers (embed_input a),
                 embedding_dropout = dp,
                 cont_norm = (case continuous_cols a of
                     Some cs \<Rightarrow> if batchnorm_cont a then Some (BatchNorm1d (length cs)) else None
                   | None \<Rightarrow> None),
                 tab_resnet = resnet,
                 tab_resnet_mlp = the_mlp,
                 output_dim = (case mlp_hidden_dims a of
                     Some hidden \<Rightarrow> last (base_dim a # hidden)
                   | None \<Rightarrow> base_dim a) \<rparr>"
    by blast
  define E where "E = sum_list (map (\<lambda>embed. snd (snd embed)) (embed_input a))"
  have emb: "bindE (mapE (\<lambda>(col, _, _).
              bindE (lookup_module (build_embed_layers (embed_input a)) (''emb_layer_'' @ col)) (\<lambda>emb.
              bindE (lookup_key (column_idx a) col) (\<lambda>j.
              bindE (select_column j X) (\<lambda>column.
              Embedding_forward emb (map long column))))) (embed_input a)) cat1 = Inr [n, E]"
  proof -
    have "cat1 (map (\<lambda>embed. [n, snd (snd embed)]) (embed_input a)) = Inr [n, E]"
      using ne cat1_widths[of "map (\<lambda>embed. snd (snd embed)) (embed_input a)" n]
      by (simp add: E_def comp_def)
    then show ?thesis
      by (simp only: embed_step[OF dist cat] bindE_Inr n_def)
  qed
  have drop: "layer_shape dp s = Inr s" for s
    using dp by (auto simp: layer_shape_def)
  have mlp: "case mlp_hidden_dims a of
               None \<Rightarrow> True
             | Some hidden \<Rightarrow> \<exists>f. the_mlp = Some f
                 \<and> MLP_forward prim_shape f [n, base_dim a] = Inr [n, last (base_dim a # hidden)]"
  proof (cases "mlp_hidden_dims a")
    case None
    then show ?thesis by simp
  next
    case (Some hs)
    with the_mlp obtain f where f: "the_mlp = Some f"
      "MLP_init (base_dim a # hs) (mlp_activation a) (mlp_dropout a)
         (mlp_batchnorm a) (mlp_batchnorm_last a) (mlp_linear_first a) = Inr f"
      by auto
    from hidden Some basepos have pos: "\<forall>x \<in> set (base_dim a # hs). 0 < x" by simp
    from MLP_forward_shape[OF f(2) _ n pos] f(1) Some show ?thesis by simp
  qed
  have res: "DenseResnet_forward prim_shape iadd_shape resnet
               [n, if concat_cont_first a
                   then E + (case continuous_cols a of Some cs \<Rightarrow> length cs | None \<Rightarrow> 0)
                   else E]
             = Inr [n, last (blocks_dims a)]"
    using DenseResnet_forward_shape[OF resnet n blocks] by (simp add: E_def split: if_splits)
  have fwd: "TabResnet_forward m X = Inr [n, output_dim m]"
  proof (cases "continuous_cols a")
    case None
    with res have r: "DenseResnet_forward prim_shape iadd_shape resnet [n, E]
                       = Inr [n, last (blocks_dims a)]"
      by (simp split: if_splits)
    show ?thesis
      unfolding TabResnet_forward_def m sel_extend sel_extend_more
      using emb[unfolded bindE_eq_Inr] None r mlp
      apply (clarsimp simp: drop)
      apply (cases "mlp_hidden_dims a"; cases "concat_cont_first a"; auto simp: base_dim_def)
      done
  next
    case (Some cs)
    with cont have c: "bindE (mapE (lookup_key (column_idx a)) cs)
        (\<lambda>cont_idx. select_columns cont_idx X) = Inr [n, length cs]"
      unfolding n_def by (intro cont_step) simp
    from cont Some have bn: "batchnorm_cont a \<longrightarrow>
        layer_shape (BatchNorm1d (length cs)) [n, length cs] = Inr [n, length cs]"
      using n by (auto simp: layer_shape_def BatchNorm1d_shape simp del: prim_shape.simps(2))
    have r: "DenseResnet_forward prim_shape iadd_shape resnet
               [n, if concat_cont_first a then E + length cs else E]
             = Inr [n, last (blocks_dims a)]"
      using res Some by (auto split: if_splits)
    show ?thesis
      unfolding TabResnet_forward_def m sel_extend sel_extend_more
      using emb[unfolded bindE_eq_Inr] Some r c[unfolded bindE_eq_Inr] mlp bn
      apply (clarsimp simp: drop cat1_two)
      apply (cases "mlp_hidden_dims a"; cases "concat_cont_first a"; cases "batchnorm_cont a";
          auto simp: cat1_two base_dim_def add.commute[of "last (blocks_dims a)"])
      done
  qed
  have od: "output_dim m =
        (let base = (if concat_cont_first a then last (blocks_dims a)
                     else (case continuous_cols a of Some cs \<Rightarrow> length cs | None \<Rightarrow> 0)
                          + last (blocks_dims a))
         in case mlp_hidden_dims a of
              Some hidden \<Rightarrow> if hidden = [] then base else last hidden
            | None \<Rightarrow> base)"
    unfolding m sel_extend_more by (simp add: base_dim_def split: option.splits)
  from fwd od show ?thesis by (simp add: n_def)
qed

lemmas construct_defs =
  TabResnet_init_def nn_Dropout_def DenseResnet_init_def add_block_def BasicBlock_new_def
  add_module_def string_of_nat.simps digit_char_def MLP_init_def dense_layer_def Let_def

lemma doc_example_init: "\<exists>m. TabResnet_init doc_example = Inr m"
  by (simp add: doc_example_def construct_defs)

lemma doc_example_mlp_init: "\<exists>m. TabResnet_init doc_example_mlp = Inr m"
  by (simp add: doc_example_mlp_def doc_example_def construct_defs upt_rec[of 1])

lemmas forward_defs =
  TabResnet_forward_def build_embed_layers_def lookup_module_def lookup_key_def
  select_column_def select_columns_def long_def cat1_def layer_shape_def
  DenseResnet_forward_def BasicBlock_forward_def BasicBlock_init_def iadd_shape_def
  mul_shape_def values_per_channel_def MLP_forward_def
  TabResnet_args.defs TabResnet.defs

text \<open>
  C1 as stated fails for a batch of a single row: the model of the docstring's example
  is in training mode after its construction, and there the first batch normalisation
  of its blocks raises \<open>ValueError\<close> on one row.
\<close>

theorem TabResnet_single_row:
  "TabResnet_run doc_example single_row_input
     = Inl (ValueError ''Expected more than 1 value per channel when training'')"
  by (simp add: TabResnet_run_def doc_example_def single_row_input_def construct_defs
      forward_defs)

theorem TabResnet_forward_shape_witness:
  "\<exists>m. TabResnet_init doc_example_mlp = Inr m
     \<and> is_tensor2 doc_input
     \<and> length (rows doc_input) \<noteq> 1
     \<and> embed_input doc_example_mlp \<noteq> []
     \<and> distinct (map fst (embed_input doc_example_mlp))
     \<and> mlp_activation doc_example_mlp \<in> {''tanh'', ''relu'', ''leaky_relu'', ''gelu''}
     \<and> TabResnet_forward m doc_input = Inr [2, 3]
     \<and> output_dim m = 3"
proof -
  obtain m where m: "TabResnet_init doc_example_mlp = Inr m"
    using doc_example_mlp_init by blast
  have tensor: "is_tensor2 doc_input"
    and batch: "length (rows doc_input) \<noteq> 1"
    and ne: "embed_input doc_example_mlp \<noteq> []"
    and dist: "distinct (map fst (embed_input doc_example_mlp))"
    and cont: "\<forall>cs. continuous_cols doc_example_mlp = Some cs
                 \<longrightarrow> (\<forall>col \<in> set cs. \<exists>j < width doc_input. column_idx doc_example_mlp col = Some j)
                   \<and> (batchnorm_cont doc_example_mlp \<longrightarrow> cs \<noteq> [])"
    and blocks: "\<forall>d \<in> set (blocks_dims doc_example_mlp). 0 < d"
    and hidden: "\<forall>hidden. mlp_hidden_dims doc_example_mlp = Some hidden
                   \<longrightarrow> (\<forall>d \<in> set hidden. 0 < d)
                     \<and> mlp_activation doc_example_mlp \<in> {''tanh'', ''relu'', ''leaky_relu'', ''gelu''}"
    by (auto simp: doc_example_mlp_def doc_example_def doc_input_def is_tensor2_def)
  have cat: "\<forall>(col, val, wd) \<in> set (embed_input doc_example_mlp).
                \<exists>j < width doc_input. column_idx doc_example_mlp col = Some j
                  \<and> (\<forall>r \<in> set (rows doc_input). 0 \<le> long (r ! j) \<and> long (r ! j) \<le> int val)"
    by (simp add: doc_example_mlp_def doc_example_def doc_input_def long_def)
  from TabResnet_forward_shape [OF m tensor batch ne dist cat cont blocks hidden]
  have "TabResnet_forward m doc_input = Inr [2, 3] \<and> output_dim m = 3"
    by (simp add: doc_example_mlp_def doc_example_def doc_input_def)
  moreover have "mlp_activation doc_example_mlp \<in> {''tanh'', ''relu'', ''leaky_relu'', ''gelu''}"
    by (simp add: doc_example_mlp_def doc_example_def)
  ultimately show ?thesis using m tensor batch ne dist by blast
qed

lemma foldE_add_block_Inl:
  "foldE (add_block bd p) xs s = Inl e
   \<Longrightarrow> e = ValueError ''dropout probability has to be between 0 and 1''"
proof (induction xs arbitrary: s)
  case Nil
  then show ?case by simp
next
  case (Cons x xs)
  then show ?case
    by (auto simp: bindE_eq_Inl add_block_def BasicBlock_new_def nn_Dropout_def Let_def
        split: if_splits)
qed

lemma DenseResnet_init_Inl:
  "DenseResnet_init d bd p = Inl e
   \<Longrightarrow> e \<noteq> ValueError ''blocks must contain at least two elements, e.g. [256, 128]''"
  by (auto simp: DenseResnet_init_def bindE_eq_Inl Let_def split: list.splits
      dest!: foldE_add_block_Inl)

lemma mapE_dense_layer_Inl:
  "mapE (\<lambda>i. dense_layer (f i) (g i) act p (bn i) lf) xs = Inl e
   \<Longrightarrow> e = ValueError ''dropout probability has to be between 0 and 1''"
proof (induction xs)
  case Nil
  then show ?case by simp
next
  case (Cons x xs)
  then show ?case
    by (auto simp: bindE_eq_Inl dense_layer_def nn_Dropout_def Let_def split: if_splits)
qed

lemma MLP_init_Inl:
  "MLP_init d act p bn bnl lf = Inl e
   \<Longrightarrow> e = ValueError ''dropout probability has to be between 0 and 1''"
  unfolding MLP_init_def
  by (auto simp: bindE_eq_Inl dest!: mapE_dense_layer_Inl)

text \<open>
  C3. A \<open>blocks_dims\<close> with fewer than two widths makes the construction of
  \<open>TabResnet\<close> end in the \<open>ValueError\<close> of its first check, whatever the other
  arguments are, also those that the library would refuse when a layer is built from
  them. With two or more widths the check passes: the result of the construction is
  not this error.
\<close>

theorem TabResnet_init_blocks_check:
  "(length (blocks_dims a) < 2 \<longrightarrow>
      TabResnet_init a
        = Inl (ValueError ''blocks must contain at least two elements, e.g. [256, 128]''))
   \<and> (2 \<le> length (blocks_dims a) \<longrightarrow>
      TabResnet_init a
        \<noteq> Inl (ValueError ''blocks must contain at least two elements, e.g. [256, 128]''))"
proof (intro conjI impI)
  assume "length (blocks_dims a) < 2"
  then show "TabResnet_init a
        = Inl (ValueError ''blocks must contain at least two elements, e.g. [256, 128]'')"
    by (simp add: TabResnet_init_def)
next
  assume len: "2 \<le> length (blocks_dims a)"
  show "TabResnet_init a
        \<noteq> Inl (ValueError ''blocks must contain at least two elements, e.g. [256, 128]'')"
  proof
    assume "TabResnet_init a
        = Inl (ValueError ''blocks must contain at least two elements, e.g. [256, 128]'')"
    with len show False
      by (auto simp: TabResnet_init_def Let_def bindE_eq_Inl bindE_eq_Inr nn_Dropout_def
          split: if_splits option.splits prod.splits
          dest: DenseResnet_init_Inl MLP_init_Inl)
  qed
qed

theorem TabResnet_init_blocks_check_witness:
  "length (blocks_dims (doc_example\<lparr>blocks_dims := [16], embed_dropout := Some 2\<rparr>)) < 2
   \<and> TabResnet_init (doc_example\<lparr>blocks_dims := [16], embed_dropout := Some 2\<rparr>)
       = Inl (ValueError ''blocks must contain at least two elements, e.g. [256, 128]'')
   \<and> 2 \<le> length (blocks_dims (doc_example\<lparr>embed_dropout := Some 2\<rparr>))
   \<and> TabResnet_init (doc_example\<lparr>embed_dropout := Some 2\<rparr>)
       \<noteq> Inl (ValueError ''blocks must contain at least two elements, e.g. [256, 128]'')
   \<and> TabResnet_init (doc_example\<lparr>embed_dropout := Some 2\<rparr>)
       = Inl (ValueError ''dropout probability has to be between 0 and 1'')"
proof -
  have "TabResnet_init (doc_example\<lparr>embed_dropout := Some 2\<rparr>)
       = Inl (ValueError ''dropout probability has to be between 0 and 1'')"
    by (simp add: doc_example_def TabResnet_init_def nn_Dropout_def)
  then show ?thesis
    using TabResnet_init_blocks_check [of "doc_example\<lparr>blocks_dims := [16], embed_dropout := Some 2\<rparr>"]
          TabResnet_init_blocks_check [of "doc_example\<lparr>embed_dropout := Some 2\<rparr>"]
    by (simp add: doc_example_def)
qed

lemma set_update_subset: "set (AList.update k v al) \<subseteq> insert (k, v) (set al)"
  by (induction al) auto

lemma fold_update_mem:
  "(name, l) \<in> set (fold (\<lambda>(c, v). AList.update (k c) (f v)) ei acc)
   \<Longrightarrow> (name, l) \<in> set acc \<or> (\<exists>c v. (c, v) \<in> set ei \<and> name = k c \<and> l = f v)"
proof (induction ei arbitrary: acc)
  case Nil
  then show ?case by simp
next
  case (Cons e ei)
  obtain c v where e: "e = (c, v)" by (cases e)
  from Cons.prems have "(name, l) \<in> set (fold (\<lambda>(c, v). AList.update (k c) (f v)) ei
        (AList.update (k c) (f v) acc))"
    by (simp add: e)
  from Cons.IH[OF this] show ?case
    using set_update_subset[of "k c" "f v" acc]
    by (fastforce simp: e)
qed

lemma build_embed_layers_mem:
  assumes "(name, l) \<in> set (build_embed_layers ei)"
  shows "\<exists>col val wd. (col, val, wd) \<in> set ei \<and> name = ''emb_layer_'' @ col
             \<and> l = Embedding (val + 1) wd (Some 0)"
proof -
  define k where "k = (\<lambda>c. ''emb_layer_'' @ c)"
  define f where "f = (\<lambda>(v :: nat, w). Embedding (v + 1) w (Some 0))"
  have b: "build_embed_layers ei = fold (\<lambda>(c, v). AList.update (k c) (f v)) ei []"
    by (simp add: build_embed_layers_def add_module_def[abs_def] k_def f_def case_prod_unfold)
  from fold_update_mem[OF assms[unfolded b]]
  obtain c v where "(c, v) \<in> set ei" "name = k c" "l = f v" by auto
  then show ?thesis
    by (cases v) (auto simp: k_def f_def)
qed

lemma Embedding_table:
  "length (Embedding_weight init (Embedding (val + 1) wd (Some 0))) = val + 1"
  "Embedding_lookup (Embedding_weight init (Embedding (val + 1) wd (Some 0))) 0
     = Inr (replicate wd 0)"
  "(\<exists>v. Embedding_lookup (Embedding_weight init (Embedding (val + 1) wd (Some 0))) code = Inr v)
     \<longleftrightarrow> code \<le> val"
  by (auto simp: Embedding_weight_def Embedding_lookup_def nth_Cons' upt_rec[of 0])

text \<open>
  C10. Every embedding layer of a constructed \<open>TabResnet\<close> belongs to a declared
  column \<open>(col, val, dim)\<close>: it is named after the column, its table has \<open>val + 1\<close>
  rows, and index 0 is its padding index, whose row is the zero vector. So a lookup
  succeeds exactly for the codes 0 to \<open>val\<close>, and code 0 gives the zero vector. With
  distinct column names every declared column has its layer.
\<close>

theorem TabResnet_embed_layers:
  assumes "TabResnet_init a = Inr m"
  shows "(\<forall>(name, l) \<in> set (embed_layers m).
            \<exists>col val wd. (col, val, wd) \<in> set (embed_input a)
              \<and> name = ''emb_layer_'' @ col
              \<and> l = Embedding (val + 1) wd (Some 0)
              \<and> length (Embedding_weight init l) = val + 1
              \<and> Embedding_lookup (Embedding_weight init l) 0 = Inr (replicate wd 0)
              \<and> (\<forall>code. (\<exists>v. Embedding_lookup (Embedding_weight init l) code = Inr v)
                           \<longleftrightarrow> code \<le> val))
       \<and> (distinct (map fst (embed_input a)) \<longrightarrow>
            (\<forall>(col, val, wd) \<in> set (embed_input a).
               lookup_module (embed_layers m) (''emb_layer_'' @ col)
                 = Inr (Embedding (val + 1) wd (Some 0))))"
proof -
  from TabResnet_init_InrD(2)[OF assms]
  have el: "embed_layers m = build_embed_layers (embed_input a)"
    by (auto simp: sel_extend_more)
  have 1: "\<exists>col val wd. (col, val, wd) \<in> set (embed_input a)
              \<and> name = ''emb_layer_'' @ col
              \<and> l = Embedding (val + 1) wd (Some 0)
              \<and> length (Embedding_weight init l) = val + 1
              \<and> Embedding_lookup (Embedding_weight init l) 0 = Inr (replicate wd 0)
              \<and> (\<forall>code. (\<exists>v. Embedding_lookup (Embedding_weight init l) code = Inr v)
                           \<longleftrightarrow> code \<le> val)"
    if "(name, l) \<in> set (embed_layers m)" for name l
  proof -
    from build_embed_layers_mem[OF that[unfolded el]]
    obtain col val wd where "(col, val, wd) \<in> set (embed_input a)"
      "name = ''emb_layer_'' @ col" "l = Embedding (val + 1) wd (Some 0)"
      by blast
    then show ?thesis
      using Embedding_table[of init val wd] by blast
  qed
  have 2: "lookup_module (embed_layers m) (''emb_layer_'' @ col)
                 = Inr (Embedding (val + 1) wd (Some 0))"
    if "distinct (map fst (embed_input a))" "(col, val, wd) \<in> set (embed_input a)" for col val wd
    using lookup_embed_layer[OF that] by (simp add: el)
  from 1 2 show ?thesis by blast
qed

theorem TabResnet_embed_layers_witness:
  "\<exists>m. TabResnet_init doc_example = Inr m
     \<and> distinct (map fst (embed_input doc_example))
     \<and> lookup_module (embed_layers m) ''emb_layer_a'' = Inr (Embedding 5 8 (Some 0))
     \<and> (\<forall>(name, l) \<in> set (embed_layers m). \<exists>col val wd. (col, val, wd) \<in> set (embed_input doc_example)
              \<and> l = Embedding (val + 1) wd (Some 0))"
proof -
  obtain m where m: "TabResnet_init doc_example = Inr m"
    using doc_example_init by blast
  have d: "distinct (map fst (embed_input doc_example))"
    by (simp add: doc_example_def)
  have mem: "(''a'', 4, 8) \<in> set (embed_input doc_example)"
    by (simp add: doc_example_def)
  from TabResnet_embed_layers [OF m, of "\<lambda>i j. 0"] d mem
  have "lookup_module (embed_layers m) (''emb_layer_'' @ ''a'') = Inr (Embedding (4 + 1) 8 (Some 0))"
    and "\<forall>(name, l) \<in> set (embed_layers m). \<exists>col val wd. (col, val, wd) \<in> set (embed_input doc_example)
              \<and> l = Embedding (val + 1) wd (Some 0)"
    by fast+
  with m d show ?thesis by auto
qed

section \<open>Properties of TabTransformer\<close>

lemma tt_sel_extend:
  "tt_continuous_cols (TabTransformer_args.extend a r) = tt_continuous_cols a"
  "tt_cat_embed_input (TabTransformer_args.extend a r) = tt_cat_embed_input a"
  "tt_input_dim (TabTransformer_args.extend a r) = tt_input_dim a"
  by (simp_all add: TabTransformer_args.defs)






text \<open>
  C5. Let the constructor of the base class return an instance that keeps the argument
  \<open>embed_continuous\<close>. Then constructing \<open>TabTransformer\<close> ends in the \<open>ValueError\<close>
  of the check whenever there is at least one continuous column, no categorical column
  (no declaration or an empty one) and \<open>embed_continuous\<close> is not set. With at least
  one categorical column, or with \<open>embed_continuous\<close> set, or without continuous
  columns, the check passes: the constructor goes on to build the transformer blocks
  and the MLP.
\<close>

theorem TabTransformer_init_only_continuous:
  assumes "super_init a = Inr self"
    and "b_embed_continuous self = tt_embed_continuous a"
  shows "((\<exists>cs. tt_continuous_cols a = Some cs \<and> cs \<noteq> [])
          \<and> (tt_cat_embed_input a = None \<or> tt_cat_embed_input a = Some [])
          \<and> \<not> tt_embed_continuous a
          \<longrightarrow> TabTransformer_init super_init enc a
                = Inl (ValueError
                    ''If only continuous features are used embed_continuous must be set to True''))
       \<and> ((\<exists>ci. tt_cat_embed_input a = Some ci \<and> ci \<noteq> [])
            \<or> tt_embed_continuous a
            \<or> tt_continuous_cols a = None \<or> tt_continuous_cols a = Some []
          \<longrightarrow> TabTransformer_init super_init enc a
                = TabTransformer_build enc a self (tt_column_idx a ''cls_token'' \<noteq> None)
                    (case tt_cat_embed_input a of Some ci \<Rightarrow> length ci | None \<Rightarrow> 0)
                    (case tt_continuous_cols a of Some cs \<Rightarrow> length cs | None \<Rightarrow> 0))"
  using assms by (auto simp: TabTransformer_init_def Let_def)

theorem TabTransformer_init_only_continuous_witness:
  "example_base (tt_doc_example\<lparr>tt_cat_embed_input := None\<rparr>)
     = Inr \<lparr> b_embed_continuous = False, b_input_dim = 32, cat_embed_act_fn = None,
             cat_and_cont_embed = (\<lambda>X. Inr (None, Some [length (rows X), 1])),
             get_embeddings = (\<lambda>X. Inr [length (rows X), 1, 32]) \<rparr>
   \<and> \<not> tt_embed_continuous (tt_doc_example\<lparr>tt_cat_embed_input := None\<rparr>)
   \<and> TabTransformer_init example_base example_encoder (tt_doc_example\<lparr>tt_cat_embed_input := None\<rparr>)
       = Inl (ValueError
           ''If only continuous features are used embed_continuous must be set to True'')
   \<and> example_base tt_doc_example
     = Inr \<lparr> b_embed_continuous = False, b_input_dim = 32, cat_embed_act_fn = None,
             cat_and_cont_embed = (\<lambda>X. Inr (Some [length (rows X), 4, 32], Some [length (rows X), 1])),
             get_embeddings = (\<lambda>X. Inr [length (rows X), 5, 32]) \<rparr>
   \<and> \<not> tt_embed_continuous tt_doc_example
   \<and> TabTransformer_init example_base example_encoder tt_doc_example
       = TabTransformer_build example_encoder tt_doc_example
           \<lparr> b_embed_continuous = False, b_input_dim = 32, cat_embed_act_fn = None,
             cat_and_cont_embed = (\<lambda>X. Inr (Some [length (rows X), 4, 32], Some [length (rows X), 1])),
             get_embeddings = (\<lambda>X. Inr [length (rows X), 5, 32]) \<rparr>
           False 4 1"
proof -
  have b: "example_base (tt_doc_example\<lparr>tt_cat_embed_input := None\<rparr>)
     = Inr \<lparr> b_embed_continuous = False, b_input_dim = 32, cat_embed_act_fn = None,
             cat_and_cont_embed = (\<lambda>X. Inr (None, Some [length (rows X), 1])),
             get_embeddings = (\<lambda>X. Inr [length (rows X), 1, 32]) \<rparr>"
    by (simp add: example_base_def tt_doc_example_def)
  have c: "example_base tt_doc_example
     = Inr \<lparr> b_embed_continuous = False, b_input_dim = 32, cat_embed_act_fn = None,
             cat_and_cont_embed = (\<lambda>X. Inr (Some [length (rows X), 4, 32], Some [length (rows X), 1])),
             get_embeddings = (\<lambda>X. Inr [length (rows X), 5, 32]) \<rparr>"
    by (simp add: example_base_def tt_doc_example_def fun_eq_iff)
  have four: "Suc (Suc (Suc (Suc 0))) = 4" by simp
  show ?thesis
    using TabTransformer_init_only_continuous
        [where super_init = example_base and enc = example_encoder
           and a = "tt_doc_example\<lparr>tt_cat_embed_input := None\<rparr>"
           and self = "\<lparr> b_embed_continuous = False, b_input_dim = 32, cat_embed_act_fn = None,
             cat_and_cont_embed = (\<lambda>X. Inr (None, Some [length (rows X), 1])),
             get_embeddings = (\<lambda>X. Inr [length (rows X), 1, 32]) \<rparr>"]
      TabTransformer_init_only_continuous
        [where super_init = example_base and enc = example_encoder
           and a = tt_doc_example
           and self = "\<lparr> b_embed_continuous = False, b_input_dim = 32, cat_embed_act_fn = None,
             cat_and_cont_embed = (\<lambda>X. Inr (Some [length (rows X), 4, 32], Some [length (rows X), 1])),
             get_embeddings = (\<lambda>X. Inr [length (rows X), 5, 32]) \<rparr>"]
      b c four
    by (simp add: tt_doc_example_def)
qed









end
